theory Spec2Isabelle
  imports Complex_Main
begin

section \<open>Python values used by the calculator\<close>

text \<open>
  The calculator (\<^verbatim>\<open>src/rwa_calculator.py\<close>, class \<^verbatim>\<open>RWACalculator\<close>) reads every
  attribute of an exposure with \<^verbatim>\<open>row.get(key, default)\<close> and then applies \<^verbatim>\<open>str\<close>,
  \<^verbatim>\<open>float\<close> or a truth test to whatever the cell holds. The embedding keeps that shape.

  A Python \<^verbatim>\<open>str\<close> is a sequence of Unicode code points, modelled as a list of
  naturals, so that the non-ASCII literals of the source (\<^verbatim>\<open>U+00E0\<close>, \<^verbatim>\<open>U+00E9\<close>,
  \<^verbatim>\<open>U+2264\<close>) are exact. Column names are plain identifiers and stay HOL strings.
\<close>

type_synonym pystr = "nat list"

definition ustr :: "string \<Rightarrow> pystr" where
  "ustr s = map of_char s"

text \<open>The operator \<^verbatim>\<open>needle in haystack\<close> on strings: contiguous substring.\<close>

fun starts_with :: "pystr \<Rightarrow> pystr \<Rightarrow> bool" where
  "starts_with [] h = True"
| "starts_with (n # ns) [] = False"
| "starts_with (n # ns) (c # cs) = (n = c \<and> starts_with ns cs)"

fun str_in :: "pystr \<Rightarrow> pystr \<Rightarrow> bool" where
  "str_in n [] = (n = [])"
| "str_in n (c # cs) = (starts_with n (c # cs) \<or> str_in n cs)"

text \<open>
  \<^verbatim>\<open>str.lower()\<close> and \<^verbatim>\<open>str.upper()\<close>, code point by code point. The mapping is
  Python's on every code point up to \<^verbatim>\<open>U+00FF\<close> and on every code point above it whose
  image contains a code point up to \<^verbatim>\<open>U+00FF\<close> (the dotted capital I, the Kelvin and
  Angstrom signs, the long s, the Latin ligatures and a few more). Any other code point
  is left as it is; Python may give it another image, but one that lies above
  \<^verbatim>\<open>U+00FF\<close> again, and the source only ever tests the converted text against
  literals made of code points up to \<^verbatim>\<open>U+00FF\<close> and of \<^verbatim>\<open>U+2264\<close>, which is no
  letter's image.
\<close>

definition lower_cp :: "nat \<Rightarrow> pystr" where
  "lower_cp c =
     (if 65 \<le> c \<and> c \<le> 90 then [c + 32]
      else if 192 \<le> c \<and> c \<le> 222 \<and> c \<noteq> 215 then [c + 32]
      else if c = 304 then [105, 775]
      else if c = 376 then [255]
      else if c = 7838 then [223]
      else if c = 8490 then [107]
      else if c = 8491 then [229]
      else [c])"

definition upper_cp :: "nat \<Rightarrow> pystr" where
  "upper_cp c =
     (if 97 \<le> c \<and> c \<le> 122 then [c - 32]
      else if 224 \<le> c \<and> c \<le> 254 \<and> c \<noteq> 247 then [c - 32]
      else if c = 223 then [83, 83]
      else if c = 181 then [924]
      else if c = 255 then [376]
      else if c = 305 then [73]
      else if c = 329 then [700, 78]
      else if c = 383 then [83]
      else if c = 496 then [74, 780]
      else if c = 7830 then [72, 817]
      else if c = 7831 then [84, 776]
      else if c = 7832 then [87, 778]
      else if c = 7833 then [89, 778]
      else if c = 7834 then [65, 702]
      else if c = 64256 then [70, 70]
      else if c = 64257 then [70, 73]
      else if c = 64258 then [70, 76]
      else if c = 64259 then [70, 70, 73]
      else if c = 64260 then [70, 70, 76]
      else if c = 64261 \<or> c = 64262 then [83, 84]
      else [c])"

definition py_lower :: "pystr \<Rightarrow> pystr" where
  "py_lower s = concat (map lower_cp s)"

definition py_upper :: "pystr \<Rightarrow> pystr" where
  "py_upper s = concat (map upper_cp s)"

text \<open>\<^verbatim>\<open>str.strip()\<close> removes the code points for which \<^verbatim>\<open>str.isspace()\<close> holds.\<close>

definition is_space :: "nat \<Rightarrow> bool" where
  "is_space c =
     ((9 \<le> c \<and> c \<le> 13) \<or> (28 \<le> c \<and> c \<le> 32) \<or> c = 133 \<or> c = 160 \<or> c = 5760
      \<or> (8192 \<le> c \<and> c \<le> 8202) \<or> c = 8232 \<or> c = 8233 \<or> c = 8239 \<or> c = 8287
      \<or> c = 12288)"

definition py_strip :: "pystr \<Rightarrow> pystr" where
  "py_strip s = rev (dropWhile is_space (rev (dropWhile is_space s)))"

section \<open>Rating tables\<close>

text \<open>
  \<^verbatim>\<open>_initialize_rating_weights\<close>: three dictionaries. A dictionary is iterated in
  insertion order by \<^verbatim>\<open>_get_rating_weighting\<close>, so each is an association list.
\<close>

definition general_table :: "(pystr \<times> rat) list" where
  "general_table =
     [(ustr ''AAA '' @ [224] @ ustr '' AA-'', 1/5),
      (ustr ''A+ '' @ [224] @ ustr '' A-'', 1/2),
      (ustr ''BBB+ '' @ [224] @ ustr '' BBB-'', 1/2),
      (ustr ''BB+ '' @ [224] @ ustr '' BB-'', 1),
      (ustr ''B+ '' @ [224] @ ustr '' B-'', 1),
      (ustr ''Inf'' @ [233] @ ustr ''rieure '' @ [224] @ ustr '' B-'', 3/2),
      (ustr ''Pas de notation'', 1/2)]"

definition short_term_table :: "(pystr \<times> rat) list" where
  "short_term_table =
     [(ustr ''A-1'', 1/5),
      (ustr ''A-2'', 1/2),
      (ustr ''A-3'', 1),
      (ustr ''Inf'' @ [233] @ ustr ''rieure '' @ [224] @ ustr '' A-3'', 3/2)]"

definition rating_weights :: "string \<Rightarrow> (pystr \<times> rat) list option" where
  "rating_weights category =
     (if category = ''general'' then Some general_table
      else if category = ''credit_short_term'' then Some short_term_table
      else if category = ''enterprise_short_term'' then Some short_term_table
      else None)"

text \<open>
  The loop \<^verbatim>\<open>for rating_range, weight in table.items()\<close> of \<^verbatim>\<open>_get_rating_weighting\<close>:
  the weight of the first key that contains the rating or equals it.
\<close>

fun table_search :: "pystr \<Rightarrow> (pystr \<times> rat) list \<Rightarrow> rat option" where
  "table_search rating [] = None"
| "table_search rating ((rating_range, weight) # rest) =
     (if str_in rating rating_range \<or> rating = rating_range then Some weight
      else table_search rating rest)"

definition get_rating_weighting :: "pystr \<Rightarrow> string \<Rightarrow> rat" where
  "get_rating_weighting rating0 category =
     (let rating = py_strip (py_upper rating0);
          table = (if category = ''credit_short_term'' \<or> category = ''enterprise_short_term''
                   then (case rating_weights category of Some t \<Rightarrow> t | None \<Rightarrow> [])
                   else (case rating_weights ''general'' of Some t \<Rightarrow> t | None \<Rightarrow> []))
      in case table_search rating table of
           Some weight \<Rightarrow> weight
         | None \<Rightarrow>
            (if str_in (ustr ''AAA'') rating \<or> str_in (ustr ''AA'') rating then 1/5
             else if str_in (ustr ''A+'') rating \<or> str_in (ustr ''A'') rating
                     \<or> str_in (ustr ''A-'') rating then 1/2
             else if str_in (ustr ''BBB'') rating then 1/2
             else if str_in (ustr ''BB'') rating then 1
             else if str_in (ustr ''B+'') rating \<or> str_in (ustr ''B'') rating
                     \<or> str_in (ustr ''B-'') rating then 1
             else if str_in (ustr ''CCC'') rating \<or> str_in (ustr ''CC'') rating
                     \<or> str_in (ustr ''C'') rating \<or> str_in (ustr ''D'') rating then 3/2
             else 1/2))"

section \<open>Cells, rows and the built-in conversions\<close>

text \<open>
  A cell of the input frame holds a string, a finite number (int or float), a boolean,
  pandas' missing-value marker \<^verbatim>\<open>nan\<close> or a float infinity. A finite numeric cell is
  given by its value and by the text that \<^verbatim>\<open>str()\<close> prints for it (\<^verbatim>\<open>'3'\<close> for the
  int 3, \<^verbatim>\<open>'3.0'\<close> for the float), so that the model does not have to fix Python's
  number formatting.

  A float is a rational, \<^verbatim>\<open>nan\<close>, or one of the two infinities. The special values
  follow IEEE 754 (\<^verbatim>\<open>inf * 0.0\<close> is \<^verbatim>\<open>nan\<close>, every comparison with \<^verbatim>\<open>nan\<close> is false). The
  range of a double is checked where a value enters, from text or from an int;
  arithmetic between finite values is exact (no rounding, no overflow).
\<close>

datatype error = ValueError | OverflowError | KeyError | ZeroDivisionError

datatype pyfloat = Fin rat | PInf | NInf | FNaN

datatype pyval = Str pystr | Num rat pystr | Bool bool | NaN | PosInf | NegInf

type_synonym row = "string \<rightharpoonup> pyval"

text \<open>\<^verbatim>\<open>row.get(key, default)\<close>.\<close>

definition row_get :: "row \<Rightarrow> string \<Rightarrow> pyval \<Rightarrow> pyval" where
  "row_get r key dflt = (case r key of Some v \<Rightarrow> v | None \<Rightarrow> dflt)"

text \<open>\<^verbatim>\<open>str(v)\<close>.\<close>

definition py_str :: "pyval \<Rightarrow> pystr" where
  "py_str v =
     (case v of
        Str s \<Rightarrow> s
      | Num x txt \<Rightarrow> txt
      | Bool b \<Rightarrow> (if b then ustr ''True'' else ustr ''False'')
      | NaN \<Rightarrow> ustr ''nan''
      | PosInf \<Rightarrow> ustr ''inf''
      | NegInf \<Rightarrow> ustr ''-inf'')"

text \<open>The truth value of a cell in \<^verbatim>\<open>if v:\<close>. A \<^verbatim>\<open>nan\<close> is true, and so is an infinity.\<close>

definition py_bool :: "pyval \<Rightarrow> bool" where
  "py_bool v =
     (case v of
        Str s \<Rightarrow> s \<noteq> []
      | Num x txt \<Rightarrow> x \<noteq> 0
      | Bool b \<Rightarrow> b
      | NaN \<Rightarrow> True
      | PosInf \<Rightarrow> True
      | NegInf \<Rightarrow> True)"

text \<open>
  The least magnitude that no longer rounds to a finite double: at or beyond it a
  decimal text reads as an infinity and an int raises \<^verbatim>\<open>OverflowError\<close>.
\<close>

definition double_overflow :: rat where
  "double_overflow = 2 ^ 1024 - 2 ^ 970"

definition to_double :: "rat \<Rightarrow> pyfloat" where
  "to_double v =
     (if double_overflow \<le> v then PInf
      else if v \<le> - double_overflow then NInf
      else Fin v)"

text \<open>
  \<^verbatim>\<open>float(s)\<close> on a string. Surrounding whitespace is stripped; then comes an optional
  sign and either \<^verbatim>\<open>inf\<close>, \<^verbatim>\<open>infinity\<close> or \<^verbatim>\<open>nan\<close> in any ASCII case, or a decimal number:
  digits with an optional point and an optional exponent, where a digit is any Unicode
  decimal digit and single underscores may stand between two digits. Anything else
  raises \<^verbatim>\<open>ValueError\<close>. The value is not rounded to the nearest double.
\<close>

text \<open>The code points of the digit zero of every Unicode decimal script.\<close>

definition digit_zeros :: "nat list" where
  "digit_zeros =
     [
      48, 1632, 1776, 1984, 2406, 2534, 2662, 2790, 2918, 3046, 3174, 3302, 3430, 3558,
      3664, 3792, 3872, 4160, 4240, 6112, 6160, 6470, 6608, 6784, 6800, 6992, 7088,
      7232, 7248, 42528, 43216, 43264, 43472, 43504, 43600, 44016, 65296, 66720, 68912,
      69734, 69872, 69942, 70096, 70384, 70736, 70864, 71248, 71360, 71472, 71904,
      72016, 72784, 73040, 73120, 92768, 92864, 93008, 120782, 120792, 120802, 120812,
      120822, 123200, 123632, 125264, 130032]"

definition digit_value :: "nat \<Rightarrow> nat option" where
  "digit_value c =
     (case find (\<lambda>z. z \<le> c \<and> c < z + 10) digit_zeros of
        None \<Rightarrow> None
      | Some z \<Rightarrow> Some (c - z))"

text \<open>
  What follows a digit inside a run of digits: further digits, each of which may be
  preceded by one underscore. The function returns the digits read and the rest.
\<close>

fun digit_tail :: "pystr \<Rightarrow> nat list \<times> pystr" where
  "digit_tail [] = ([], [])"
| "digit_tail (c # cs) =
     (case digit_value c of
        Some d \<Rightarrow> (case digit_tail cs of (ds, rest) \<Rightarrow> (d # ds, rest))
      | None \<Rightarrow>
          if c = 95 then
            (case cs of
               [] \<Rightarrow> ([], c # cs)
             | c' # cs' \<Rightarrow>
                 (case digit_value c' of
                    Some d \<Rightarrow> (case digit_tail cs' of (ds, rest) \<Rightarrow> (d # ds, rest))
                  | None \<Rightarrow> ([], c # cs)))
          else ([], c # cs))"

definition digitpart :: "pystr \<Rightarrow> nat list \<times> pystr" where
  "digitpart s =
     (case s of
        [] \<Rightarrow> ([], [])
      | c # cs \<Rightarrow>
          (case digit_value c of
             None \<Rightarrow> ([], s)
           | Some d \<Rightarrow> (case digit_tail cs of (ds, rest) \<Rightarrow> (d # ds, rest))))"

definition digits_val :: "nat list \<Rightarrow> nat" where
  "digits_val ds = foldl (\<lambda>a d. 10 * a + d) 0 ds"

definition split_sign :: "pystr \<Rightarrow> bool \<times> pystr" where
  "split_sign s =
     (case s of
        [] \<Rightarrow> (False, [])
      | c # cs \<Rightarrow> if c = 45 then (True, cs) else if c = 43 then (False, cs) else (False, s))"

definition parse_exponent :: "pystr \<Rightarrow> int option" where
  "parse_exponent s =
     (case s of
        [] \<Rightarrow> Some 0
      | c # cs \<Rightarrow>
          if c = 101 \<or> c = 69 then
            (case split_sign cs of
               (neg, t) \<Rightarrow>
                 (case digitpart t of
                    (ds, rest) \<Rightarrow>
                      if ds \<noteq> [] \<and> rest = []
                      then Some (if neg then - int (digits_val ds) else int (digits_val ds))
                      else None))
          else None)"

definition decimal_value :: "bool \<Rightarrow> nat list \<Rightarrow> nat list \<Rightarrow> pystr \<Rightarrow> pyfloat option" where
  "decimal_value neg ip fp rest =
     (case parse_exponent rest of
        None \<Rightarrow> None
      | Some e \<Rightarrow>
          (let m = of_nat (digits_val ip) + of_nat (digits_val fp) / 10 ^ length fp;
               v = (if 0 \<le> e then m * 10 ^ nat e else m / 10 ^ nat (- e))
           in Some (to_double (if neg then - v else v))))"

definition ascii_lower :: "pystr \<Rightarrow> pystr" where
  "ascii_lower s = map (\<lambda>c. if 65 \<le> c \<and> c \<le> 90 then c + 32 else c) s"

definition float_of_str :: "pystr \<Rightarrow> pyfloat option" where
  "float_of_str s0 =
     (case split_sign (py_strip s0) of
        (neg, s) \<Rightarrow>
          if ascii_lower s = ustr ''inf'' \<or> ascii_lower s = ustr ''infinity''
          then Some (if neg then NInf else PInf)
          else if ascii_lower s = ustr ''nan'' then Some FNaN
          else
            (case digitpart s of
               (ip, r1) \<Rightarrow>
                 (case r1 of
                    [] \<Rightarrow> if ip = [] then None else decimal_value neg ip [] []
                  | c # cs \<Rightarrow>
                      if c = 46 then
                        (case digitpart cs of
                           (fp, r2) \<Rightarrow>
                             if ip = [] \<and> fp = [] then None
                             else decimal_value neg ip fp r2)
                      else if ip = [] then None
                      else decimal_value neg ip [] r1)))"

text \<open>
  \<^verbatim>\<open>float(v)\<close>. A finite numeric cell beyond the range of a double can only be an int,
  for which \<^verbatim>\<open>float\<close> raises \<^verbatim>\<open>OverflowError\<close>.
\<close>

definition py_float :: "pyval \<Rightarrow> error + pyfloat" where
  "py_float v =
     (case v of
        Str s \<Rightarrow> (case float_of_str s of Some x \<Rightarrow> Inr x | None \<Rightarrow> Inl ValueError)
      | Num x txt \<Rightarrow> if \<bar>x\<bar> < double_overflow then Inr (Fin x) else Inl OverflowError
      | Bool b \<Rightarrow> Inr (Fin (if b then 1 else 0))
      | NaN \<Rightarrow> Inr FNaN
      | PosInf \<Rightarrow> Inr PInf
      | NegInf \<Rightarrow> Inr NInf)"

text \<open>
  Float comparisons against a finite constant (every comparison with \<^verbatim>\<open>nan\<close> is
  false), the product \<^verbatim>\<open>montant * weighting\<close> with a finite weight (an infinity times 0
  is \<^verbatim>\<open>nan\<close>), the sum of two floats (opposite infinities give \<^verbatim>\<open>nan\<close>) and the quotient
  of two floats, which raises \<^verbatim>\<open>ZeroDivisionError\<close> on a zero divisor.
\<close>

definition f_gt :: "pyfloat \<Rightarrow> rat \<Rightarrow> bool" where
  "f_gt x c = (case x of Fin a \<Rightarrow> a > c | PInf \<Rightarrow> True | NInf \<Rightarrow> False | FNaN \<Rightarrow> False)"

definition f_lt :: "pyfloat \<Rightarrow> rat \<Rightarrow> bool" where
  "f_lt x c = (case x of Fin a \<Rightarrow> a < c | PInf \<Rightarrow> False | NInf \<Rightarrow> True | FNaN \<Rightarrow> False)"

definition f_le :: "pyfloat \<Rightarrow> rat \<Rightarrow> bool" where
  "f_le x c = (case x of Fin a \<Rightarrow> a \<le> c | PInf \<Rightarrow> False | NInf \<Rightarrow> True | FNaN \<Rightarrow> False)"

definition f_ge :: "pyfloat \<Rightarrow> rat \<Rightarrow> bool" where
  "f_ge x c = (case x of Fin a \<Rightarrow> a \<ge> c | PInf \<Rightarrow> True | NInf \<Rightarrow> False | FNaN \<Rightarrow> False)"

definition f_eq :: "pyfloat \<Rightarrow> rat \<Rightarrow> bool" where
  "f_eq x c = (case x of Fin a \<Rightarrow> a = c | PInf \<Rightarrow> False | NInf \<Rightarrow> False | FNaN \<Rightarrow> False)"

definition f_mul :: "pyfloat \<Rightarrow> rat \<Rightarrow> pyfloat" where
  "f_mul x w =
     (case x of
        Fin a \<Rightarrow> Fin (a * w)
      | PInf \<Rightarrow> (if w > 0 then PInf else if w < 0 then NInf else FNaN)
      | NInf \<Rightarrow> (if w > 0 then NInf else if w < 0 then PInf else FNaN)
      | FNaN \<Rightarrow> FNaN)"

definition f_add :: "pyfloat \<Rightarrow> pyfloat \<Rightarrow> pyfloat" where
  "f_add x y =
     (case x of
        Fin a \<Rightarrow> (case y of Fin b \<Rightarrow> Fin (a + b) | PInf \<Rightarrow> PInf | NInf \<Rightarrow> NInf | FNaN \<Rightarrow> FNaN)
      | PInf \<Rightarrow> (case y of Fin b \<Rightarrow> PInf | PInf \<Rightarrow> PInf | NInf \<Rightarrow> FNaN | FNaN \<Rightarrow> FNaN)
      | NInf \<Rightarrow> (case y of Fin b \<Rightarrow> NInf | PInf \<Rightarrow> FNaN | NInf \<Rightarrow> NInf | FNaN \<Rightarrow> FNaN)
      | FNaN \<Rightarrow> FNaN)"

definition f_div :: "pyfloat \<Rightarrow> pyfloat \<Rightarrow> error + pyfloat" where
  "f_div x y =
     (case y of
        Fin d \<Rightarrow>
          if d = 0 then Inl ZeroDivisionError
          else
            (case x of
               Fin n \<Rightarrow> Inr (Fin (n / d))
             | PInf \<Rightarrow> Inr (if d > 0 then PInf else NInf)
             | NInf \<Rightarrow> Inr (if d > 0 then NInf else PInf)
             | FNaN \<Rightarrow> Inr FNaN)
      | PInf \<Rightarrow> (case x of Fin n \<Rightarrow> Inr (Fin 0) | PInf \<Rightarrow> Inr FNaN | NInf \<Rightarrow> Inr FNaN
                 | FNaN \<Rightarrow> Inr FNaN)
      | NInf \<Rightarrow> (case x of Fin n \<Rightarrow> Inr (Fin 0) | PInf \<Rightarrow> Inr FNaN | NInf \<Rightarrow> Inr FNaN
                 | FNaN \<Rightarrow> Inr FNaN)
      | FNaN \<Rightarrow> Inr FNaN)"

text \<open>\<^verbatim>\<open>any(x in s for x in xs)\<close>.\<close>

definition any_in :: "pystr list \<Rightarrow> pystr \<Rightarrow> bool" where
  "any_in xs s = list_ex (\<lambda>x. str_in x s) xs"

section \<open>Segment resolvers\<close>

text \<open>
  One definition per method of the class, under the method's name without the leading
  underscore. A method that calls \<^verbatim>\<open>float\<close> can raise and returns \<open>error + rat\<close>; the
  others return the weight.
\<close>

text \<open>\<^verbatim>\<open>_initialize_pmae_weights\<close>.\<close>

definition pmae_weights :: "pystr \<rightharpoonup> rat" where
  "pmae_weights =
     map_of [(ustr ''0'', 0), (ustr ''1'', 0), (ustr ''2'', 1/5), (ustr ''3'', 1/2),
             (ustr ''4'', 1), (ustr ''5'', 1), (ustr ''6'', 1), (ustr ''7'', 3/2)]"

definition supranationals :: "pystr list" where
  "supranationals =
     [ustr ''bis'',
      ustr ''banque des r'' @ [232] @ ustr ''glements internationaux'',
      ustr ''fonds mon'' @ [233] @ ustr ''taire international'',
      ustr ''fmi'',
      ustr ''banque centrale europ'' @ [233] @ ustr ''enne'',
      ustr ''bce'',
      ustr ''commission europ'' @ [233] @ ustr ''enne'']"

definition calculate_sovereign_weighting :: "row \<Rightarrow> rat" where
  "calculate_sovereign_weighting r =
     (let sous_segment = py_lower (py_str (row_get r ''sous_segment'' (Str [])));
          monnaie = py_upper (py_str (row_get r ''monnaie'' (Str [])))
      in if (str_in (ustr ''maroc'') sous_segment \<or> str_in (ustr ''bam'') sous_segment
             \<or> str_in (ustr ''bank al-maghrib'') sous_segment) \<and> monnaie = ustr ''MAD''
         then 0
         else if any_in supranationals sous_segment then 0
         else
           (let note_externe = py_strip (py_upper (py_str (row_get r ''note_externe'' (Str []))))
            in if any_in [ustr ''AAA'', ustr ''AA+'', ustr ''AA'', ustr ''AA-''] note_externe then 0
               else if any_in [ustr ''A+'', ustr ''A'', ustr ''A-''] note_externe then 1/5
               else if any_in [ustr ''BBB+'', ustr ''BBB'', ustr ''BBB-''] note_externe then 1/2
               else if any_in [ustr ''BB+'', ustr ''BB'', ustr ''BB-''] note_externe then 1
               else if any_in [ustr ''B+'', ustr ''B'', ustr ''B-''] note_externe then 1
               else if note_externe \<noteq> []
                       \<and> any_in [ustr ''CCC'', ustr ''CC'', ustr ''C'', ustr ''D''] note_externe
               then 3/2
               else
                 (let note_pmae = py_strip (py_str (row_get r ''note_pmae'' (Str [])))
                  in if note_pmae \<noteq> [] \<and> note_pmae \<noteq> []
                     then (case pmae_weights note_pmae of Some w \<Rightarrow> w | None \<Rightarrow> 1)
                     else 1)))"

definition calculate_public_org_weighting :: "row \<Rightarrow> rat" where
  "calculate_public_org_weighting r =
     (let remboursement_budget = row_get r ''remboursement_prevu_budget'' (Bool False)
      in if py_bool remboursement_budget then 1/5
         else
           (let note_externe = py_str (row_get r ''note_externe'' (Str []))
            in if note_externe \<noteq> [] \<and> py_strip note_externe \<noteq> []
               then get_rating_weighting note_externe ''general''
               else 1/2))"

definition calculate_bmd_weighting :: "row \<Rightarrow> rat" where
  "calculate_bmd_weighting r =
     (if py_bool (row_get r ''accord_bank_maghrib'' (Bool False)) then 0
      else
        (let note_externe = py_strip (py_upper (py_str (row_get r ''note_externe'' (Str []))))
         in if any_in [ustr ''AAA'', ustr ''AA+''] note_externe then 1/5
            else if any_in [ustr ''AA'', ustr ''AA-''] note_externe then 1/5
            else if any_in [ustr ''A+'', ustr ''A'', ustr ''A-''] note_externe then 1/2
            else if any_in [ustr ''BBB+'', ustr ''BBB'', ustr ''BBB-''] note_externe then 1/2
            else if any_in [ustr ''BB+'', ustr ''BB'', ustr ''BB-''] note_externe then 1
            else if any_in [ustr ''B+'', ustr ''B'', ustr ''B-''] note_externe then 1
            else if str_in (ustr ''B-'') note_externe
                    \<or> any_in [ustr ''CCC'', ustr ''CC'', ustr ''C'', ustr ''D''] note_externe
            then 3/2
            else 1/2))"

definition calculate_credit_institution_weighting :: "row \<Rightarrow> rat" where
  "calculate_credit_institution_weighting r =
     (let note_externe = py_str (row_get r ''note_externe'' (Str []));
          echeance_initiale = py_lower (py_str (row_get r ''echeance_initiale'' (Str [])));
          note_inf_1an = py_str (row_get r ''note_inf_1an'' (Str []))
      in if echeance_initiale \<noteq> []
            \<and> (str_in (ustr ''< 1 an'') echeance_initiale
                 \<or> str_in (ustr ''inf 1 an'') echeance_initiale)
            \<and> note_inf_1an \<noteq> []
         then get_rating_weighting note_inf_1an ''credit_short_term''
         else if note_externe \<noteq> [] then get_rating_weighting note_externe ''general''
         else if str_in ([8804] @ ustr '' 3 mois'') echeance_initiale
                 \<or> str_in (ustr ''< 3 mois'') echeance_initiale
         then
           (let monnaie = py_upper (py_str (row_get r ''monnaie'' (Str [])))
            in if monnaie = ustr ''MAD'' then 1/5
               else get_rating_weighting note_externe ''general'')
         else 1/2)"

definition calculate_enterprise_weighting :: "row \<Rightarrow> rat" where
  "calculate_enterprise_weighting r =
     (let note_externe = py_str (row_get r ''note_externe'' (Str []));
          echeance = py_lower (py_str (row_get r ''echeance'' (Str [])));
          note_inf_1an = py_str (row_get r ''note_inf_1an'' (Str []))
      in if echeance \<noteq> []
            \<and> (str_in (ustr ''< 1 an'') echeance \<or> str_in (ustr ''inf 1 an'') echeance)
            \<and> note_inf_1an \<noteq> []
         then get_rating_weighting note_inf_1an ''enterprise_short_term''
         else if py_bool (row_get r ''accord_bank_maghrib'' (Bool False)) then 1
         else if py_bool (row_get r ''appart_grpe'' (Bool False)) then 3/2
         else if note_externe \<noteq> [] then get_rating_weighting note_externe ''general''
         else 1)"

definition calculate_tpe_weighting :: "row \<Rightarrow> rat" where
  "calculate_tpe_weighting r = 3/4"

definition calculate_individual_weighting_method :: "row \<Rightarrow> error + rat" where
  "calculate_individual_weighting_method r =
     (case py_float (row_get r ''montant'' (Num 0 (ustr ''0''))) of
        Inl e \<Rightarrow> Inl e
      | Inr montant \<Rightarrow> if f_gt montant 1000000 then Inr 1 else Inr (3/4))"

text \<open>
  \<^verbatim>\<open>_calculate_loan_weighting\<close>. The block on the state convention and the final
  \<^verbatim>\<open>return 0.35\<close> are reached from two places of the method (commercial usage that
  returned nothing, and any other usage), so they are one definition of their own.
\<close>

definition loan_convention_etat :: "row \<Rightarrow> pyval \<Rightarrow> error + rat" where
  "loan_convention_etat r convention_etat =
     (if py_bool convention_etat then
        (case py_float (row_get r ''valeur_bien_hypotheque'' (Num 0 (ustr ''0''))) of
           Inl e \<Rightarrow> Inl e
         | Inr valeur_bien \<Rightarrow>
            (case py_float (row_get r ''montant'' (Num 0 (ustr ''0''))) of
               Inl e \<Rightarrow> Inl e
             | Inr montant \<Rightarrow>
                if f_gt valeur_bien 0 \<and> f_gt montant 0 then
                  (case f_div montant valeur_bien of
                     Inl e \<Rightarrow> Inl e
                   | Inr ratio \<Rightarrow> if f_le ratio (4/5) then Inr (3/4) else Inr (7/20))
                else Inr (7/20)))
      else Inr (7/20))"

definition calculate_loan_weighting :: "row \<Rightarrow> error + rat" where
  "calculate_loan_weighting r =
     (let usage = py_lower (py_str (row_get r ''usage'' (Str [])));
          convention_etat = row_get r ''convention_etat'' (Bool False)
      in if str_in (ustr ''residentiel'') usage \<or> str_in (ustr ''habitation'') usage
         then Inr (7/20)
         else if str_in (ustr ''commercial'') usage \<or> str_in (ustr ''professionnel'') usage
         then
           (let garanti_hypotheque = row_get r ''garanti_hypotheque'' (Bool False)
            in if py_bool garanti_hypotheque then Inr 1
               else if str_in (ustr ''bail'') usage \<or> str_in (ustr ''location'') usage
               then Inr (1/2)
               else loan_convention_etat r convention_etat)
         else loan_convention_etat r convention_etat)"

definition calculate_distressed_debt_weighting :: "row \<Rightarrow> error + rat" where
  "calculate_distressed_debt_weighting r =
     (case py_float (row_get r ''valeur_encours_creance'' (Num 0 (ustr ''0''))) of
        Inl e \<Rightarrow> Inl e
      | Inr valeur_encours \<Rightarrow>
         (case py_float (row_get r ''provision_constitue'' (Num 0 (ustr ''0''))) of
            Inl e \<Rightarrow> Inl e
          | Inr provision \<Rightarrow>
             if f_eq valeur_encours 0 then Inr (3/2)
             else
               (case f_div provision valeur_encours of
                  Inl e \<Rightarrow> Inl e
                | Inr ratio_provision \<Rightarrow>
                   (let usage = py_lower (py_str (row_get r ''usage'' (Str [])))
                    in if str_in (ustr ''residentiel'') usage then
                         (if f_lt ratio_provision (1/5) then Inr 1 else Inr (1/2))
                       else if f_lt ratio_provision (1/5) then Inr (3/2)
                       else if f_le ratio_provision (1/2) then Inr 1
                       else Inr (1/2)))))"

section \<open>Segment dispatch\<close>

definition calculate_individual_weighting :: "row \<Rightarrow> error + rat" where
  "calculate_individual_weighting r =
     (let seg = py_lower (py_str (row_get r ''segment'' (Str [])))
      in if seg = ustr ''creance_souffrance'' then calculate_distressed_debt_weighting r
         else if seg = ustr ''souverain'' then Inr (calculate_sovereign_weighting r)
         else if seg = ustr ''organisme_public'' then Inr (calculate_public_org_weighting r)
         else if seg = ustr ''bmd'' then Inr (calculate_bmd_weighting r)
         else if seg = ustr ''etablissement_credit''
         then Inr (calculate_credit_institution_weighting r)
         else if seg = ustr ''entreprise'' then Inr (calculate_enterprise_weighting r)
         else if seg = ustr ''tpe'' then Inr (calculate_tpe_weighting r)
         else if seg = ustr ''particulier'' then calculate_individual_weighting_method r
         else if seg = ustr ''pret'' then calculate_loan_weighting r
         else Inr 1)"

section \<open>The batch: \<^verbatim>\<open>calculate_rwa\<close>\<close>

text \<open>
  A data frame is the list of its rows. One dictionary is appended to \<^verbatim>\<open>results\<close> per
  row; the properties below read its keys \<^verbatim>\<open>segment\<close>, \<^verbatim>\<open>montant\<close>, \<^verbatim>\<open>ponderation\<close> and \<^verbatim>\<open>rwa\<close>. The
  explanation text \<^verbatim>\<open>regle\<close> and the attributes copied from the row take no part in any
  number or in any fault (\<^verbatim>\<open>_get_rule_explanation\<close> only formats text, and its one
  \<^verbatim>\<open>float\<close> call repeats a conversion that has already succeeded), and are left out.
\<close>

record result =
  segment :: pyval
  sous_segment :: pyval
  montant :: pyfloat
  ponderation :: rat
  rwa :: pyfloat

text \<open>The body of the loop \<^verbatim>\<open>for idx, row in df.iterrows()\<close>.\<close>

definition row_result :: "row \<Rightarrow> error + result" where
  "row_result r =
     (case calculate_individual_weighting r of
        Inl e \<Rightarrow> Inl e
      | Inr weighting \<Rightarrow>
         (case py_float (row_get r ''montant'' (Num 0 (ustr ''0''))) of
            Inl e \<Rightarrow> Inl e
          | Inr m \<Rightarrow>
             Inr \<lparr> segment = row_get r ''segment'' (Str []),
                   sous_segment = row_get r ''sous_segment'' (Str []),
                   montant = m,
                   ponderation = weighting,
                   rwa = f_mul m weighting \<rparr>))"

text \<open>The loop: the first row that raises ends the whole call.\<close>

fun rows_results :: "row list \<Rightarrow> error + result list" where
  "rows_results [] = Inr []"
| "rows_results (r # rs) =
     (case row_result r of
        Inl e \<Rightarrow> Inl e
      | Inr x \<Rightarrow> (case rows_results rs of Inl e \<Rightarrow> Inl e | Inr xs \<Rightarrow> Inr (x # xs)))"

text \<open>
  \<^verbatim>\<open>Series.sum()\<close> skips \<^verbatim>\<open>nan\<close> and adds the rest; with infinities of both signs among
  them the sum is \<^verbatim>\<open>nan\<close>.
\<close>

fun nansum :: "pyfloat list \<Rightarrow> pyfloat" where
  "nansum [] = Fin 0"
| "nansum (x # xs) = (if x = FNaN then nansum xs else f_add x (nansum xs))"

text \<open>
  The expression \<^verbatim>\<open>(rwa_sum / exposure_sum * 100) if exposure_sum > 0 else 0\<close>, which the
  method writes once for the portfolio and once per segment. The quotient is a float
  division; it is taken as one that fails on a zero divisor, so that the guard in front
  of it has something to exclude.
\<close>

definition average_weighting_of :: "pyfloat \<Rightarrow> pyfloat \<Rightarrow> error + pyfloat" where
  "average_weighting_of rwa_sum exposure_sum =
     (if f_gt exposure_sum 0 then
        (case f_div rwa_sum exposure_sum of Inl e \<Rightarrow> Inl e | Inr q \<Rightarrow> Inr (f_mul q 100))
      else Inr (Fin 0))"

text \<open>
  \<^verbatim>\<open>==\<close> between two cells, as the mask \<^verbatim>\<open>results_df['segment'] == segment\<close> applies
  it, and \<^verbatim>\<open>Series.unique()\<close>: the distinct values in order of first appearance, where
  all \<^verbatim>\<open>nan\<close> count as one value.
\<close>

definition num_of :: "pyval \<Rightarrow> pyfloat option" where
  "num_of v =
     (case v of
        Num x txt \<Rightarrow> Some (Fin x)
      | Bool b \<Rightarrow> Some (Fin (if b then 1 else 0))
      | PosInf \<Rightarrow> Some PInf
      | NegInf \<Rightarrow> Some NInf
      | Str s \<Rightarrow> None
      | NaN \<Rightarrow> None)"

definition py_eq :: "pyval \<Rightarrow> pyval \<Rightarrow> bool" where
  "py_eq a b =
     (case (a, b) of
        (Str s, Str t) \<Rightarrow> s = t
      | (Str s, _) \<Rightarrow> False
      | (NaN, _) \<Rightarrow> False
      | (_, _) \<Rightarrow> (case num_of b of Some y \<Rightarrow> num_of a = Some y | None \<Rightarrow> False))"

definition same_value :: "pyval \<Rightarrow> pyval \<Rightarrow> bool" where
  "same_value a b = (py_eq a b \<or> (a = NaN \<and> b = NaN))"

fun unique_from :: "pyval list \<Rightarrow> pyval list \<Rightarrow> pyval list" where
  "unique_from seen [] = []"
| "unique_from seen (v # vs) =
     (if list_ex (same_value v) seen then unique_from seen vs
      else v # unique_from (v # seen) vs)"

definition unique :: "pyval list \<Rightarrow> pyval list" where
  "unique vs = unique_from [] vs"

record segment_stats =
  count :: nat
  seg_total_exposure :: pyfloat
  seg_total_rwa :: pyfloat
  avg_weighting :: pyfloat

text \<open>One entry of \<^verbatim>\<open>counterparty_analysis\<close>.\<close>

definition segment_entry :: "result list \<Rightarrow> pyval \<Rightarrow> error + (pyval \<times> segment_stats)" where
  "segment_entry results seg =
     (let segment_data = filter (\<lambda>x. py_eq (segment x) seg) results
      in case average_weighting_of (nansum (map rwa segment_data))
                (nansum (map montant segment_data)) of
           Inl e \<Rightarrow> Inl e
         | Inr avg \<Rightarrow>
            Inr (seg, \<lparr> count = length segment_data,
                       seg_total_exposure = nansum (map montant segment_data),
                       seg_total_rwa = nansum (map rwa segment_data),
                       avg_weighting = avg \<rparr>))"

fun segment_entries :: "result list \<Rightarrow> pyval list \<Rightarrow> error + (pyval \<times> segment_stats) list" where
  "segment_entries results [] = Inr []"
| "segment_entries results (seg # segs) =
     (case segment_entry results seg of
        Inl e \<Rightarrow> Inl e
      | Inr x \<Rightarrow>
         (case segment_entries results segs of Inl e \<Rightarrow> Inl e | Inr xs \<Rightarrow> Inr (x # xs)))"

text \<open>
  \<^verbatim>\<open>df['segment']\<close> raises \<^verbatim>\<open>KeyError\<close> when the frame has no such column, that is when
  its rows have no such key.
\<close>

definition df_column :: "row list \<Rightarrow> string \<Rightarrow> error + pyval list" where
  "df_column df c =
     (case those (map (\<lambda>r. r c) df) of None \<Rightarrow> Inl KeyError | Some vs \<Rightarrow> Inr vs)"

record rwa_output =
  results_df :: "result list"
  total_rwa :: pyfloat
  total_exposure :: pyfloat
  average_weighting :: pyfloat
  unique_counterparty_types :: nat
  counterparty_analysis :: "(pyval \<times> segment_stats) list"

text \<open>
  \<^verbatim>\<open>calculate_rwa\<close>. A frame built from an empty list of dictionaries has no columns,
  so \<^verbatim>\<open>results_df['rwa']\<close> raises \<^verbatim>\<open>KeyError\<close> when the input has no rows.
\<close>

definition calculate_rwa :: "row list \<Rightarrow> error + rwa_output" where
  "calculate_rwa df =
     (case rows_results df of
        Inl e \<Rightarrow> Inl e
      | Inr results \<Rightarrow>
         if results = [] then Inl KeyError
         else
           (let t_rwa = nansum (map rwa results);
                t_exposure = nansum (map montant results)
            in case average_weighting_of t_rwa t_exposure of
                 Inl e \<Rightarrow> Inl e
               | Inr avg \<Rightarrow>
                  (case segment_entries results (unique (map segment results)) of
                     Inl e \<Rightarrow> Inl e
                   | Inr analysis \<Rightarrow>
                      (case df_column df ''segment'' of
                         Inl e \<Rightarrow> Inl e
                       | Inr segs \<Rightarrow>
                          Inr \<lparr> results_df = results,
                                total_rwa = t_rwa,
                                total_exposure = t_exposure,
                                average_weighting = avg,
                                unique_counterparty_types = length (unique segs),
                                counterparty_analysis = analysis \<rparr>))))"

text \<open>The closed set of regulatory weights.\<close>

definition weights :: "rat set" where
  "weights = {0, 1/5, 7/20, 1/2, 3/4, 1, 3/2}"

text \<open>The segment names that the dispatcher tests for, in its order.\<close>

definition known_segments :: "pystr list" where
  "known_segments =
     [ustr ''creance_souffrance'', ustr ''souverain'', ustr ''organisme_public'', ustr ''bmd'',
      ustr ''etablissement_credit'', ustr ''entreprise'', ustr ''tpe'', ustr ''particulier'',
      ustr ''pret'']"

text \<open>
  What it means for a string to differ from a name only in letter case: it has the
  name's length and, place by place, the name's code point or the capital of the name's
  small letter.
\<close>

definition case_variant :: "pystr \<Rightarrow> pystr \<Rightarrow> bool" where
  "case_variant s name =
     list_all2 (\<lambda>c d. c = d \<or> (97 \<le> d \<and> d \<le> 122 \<and> d = c + 32)) s name"

text \<open>
  The guarded percentage as a value (the guard keeps the division from failing), and
  the statistics that \<^verbatim>\<open>calculate_rwa\<close> stores for one segment value, in closed form.
\<close>

definition percentage :: "pyfloat \<Rightarrow> pyfloat \<Rightarrow> pyfloat" where
  "percentage rwa_sum exposure_sum =
     (case average_weighting_of rwa_sum exposure_sum of Inr v \<Rightarrow> v | Inl e \<Rightarrow> FNaN)"

definition stats_of :: "result list \<Rightarrow> pyval \<Rightarrow> segment_stats" where
  "stats_of results seg =
     (let segment_data = filter (\<lambda>x. py_eq (segment x) seg) results
      in \<lparr> count = length segment_data,
           seg_total_exposure = nansum (map montant segment_data),
           seg_total_rwa = nansum (map rwa segment_data),
           avg_weighting =
             percentage (nansum (map rwa segment_data)) (nansum (map montant segment_data)) \<rparr>)"

text \<open>Rows used as concrete inputs below.\<close>

definition distressed_row :: "rat \<Rightarrow> pystr \<Rightarrow> rat \<Rightarrow> pystr \<Rightarrow> row" where
  "distressed_row balance balance_txt provision provision_txt =
     [''segment'' \<mapsto> Str (ustr ''creance_souffrance''),
      ''valeur_encours_creance'' \<mapsto> Num balance balance_txt,
      ''provision_constitue'' \<mapsto> Num provision provision_txt]"

definition segment_row :: "string \<Rightarrow> pyval \<Rightarrow> row" where
  "segment_row seg amount = [''segment'' \<mapsto> Str (ustr seg), ''montant'' \<mapsto> amount]"

text \<open>Three small batches and the outputs that \<^verbatim>\<open>calculate_rwa\<close> gives for them.\<close>

definition tpe_pair :: "row list" where
  "tpe_pair = [segment_row ''tpe'' (Num 100 (ustr ''100'')),
               segment_row ''TPE'' (Num 300 (ustr ''300''))]"

definition tpe_pair_output :: rwa_output where
  "tpe_pair_output =
     \<lparr> results_df =
         [\<lparr> segment = Str (ustr ''tpe''), sous_segment = Str [], montant = Fin 100,
             ponderation = 3/4, rwa = Fin 75 \<rparr>,
          \<lparr> segment = Str (ustr ''TPE''), sous_segment = Str [], montant = Fin 300,
             ponderation = 3/4, rwa = Fin 225 \<rparr>],
       total_rwa = Fin 300, total_exposure = Fin 400, average_weighting = Fin 75,
       unique_counterparty_types = 2,
       counterparty_analysis =
         [(Str (ustr ''tpe''),
           \<lparr> count = 1, seg_total_exposure = Fin 100, seg_total_rwa = Fin 75,
              avg_weighting = Fin 75 \<rparr>),
          (Str (ustr ''TPE''),
           \<lparr> count = 1, seg_total_exposure = Fin 300, seg_total_rwa = Fin 225,
              avg_weighting = Fin 75 \<rparr>)] \<rparr>"

definition mixed_batch :: "row list" where
  "mixed_batch = [segment_row ''tpe'' (Num 100 (ustr ''100'')),
                  segment_row ''particulier'' (Num (-500) (ustr ''-500''))]"

definition mixed_batch_output :: rwa_output where
  "mixed_batch_output =
     \<lparr> results_df =
         [\<lparr> segment = Str (ustr ''tpe''), sous_segment = Str [], montant = Fin 100,
             ponderation = 3/4, rwa = Fin 75 \<rparr>,
          \<lparr> segment = Str (ustr ''particulier''), sous_segment = Str [],
             montant = Fin (-500), ponderation = 3/4, rwa = Fin (-375) \<rparr>],
       total_rwa = Fin (-300), total_exposure = Fin (-400), average_weighting = Fin 0,
       unique_counterparty_types = 2,
       counterparty_analysis =
         [(Str (ustr ''tpe''),
           \<lparr> count = 1, seg_total_exposure = Fin 100, seg_total_rwa = Fin 75,
              avg_weighting = Fin 75 \<rparr>),
          (Str (ustr ''particulier''),
           \<lparr> count = 1, seg_total_exposure = Fin (-500), seg_total_rwa = Fin (-375),
              avg_weighting = Fin 0 \<rparr>)] \<rparr>"

text \<open>A frame with no amount column at all.\<close>

definition amount_missing_batch :: "row list" where
  "amount_missing_batch =
     [[''segment'' \<mapsto> Str (ustr ''tpe'')], [''segment'' \<mapsto> Str (ustr ''particulier'')]]"

definition amount_missing_output :: rwa_output where
  "amount_missing_output =
     \<lparr> results_df =
         [\<lparr> segment = Str (ustr ''tpe''), sous_segment = Str [], montant = Fin 0,
             ponderation = 3/4, rwa = Fin 0 \<rparr>,
          \<lparr> segment = Str (ustr ''particulier''), sous_segment = Str [], montant = Fin 0,
             ponderation = 3/4, rwa = Fin 0 \<rparr>],
       total_rwa = Fin 0, total_exposure = Fin 0, average_weighting = Fin 0,
       unique_counterparty_types = 2,
       counterparty_analysis =
         [(Str (ustr ''tpe''),
           \<lparr> count = 1, seg_total_exposure = Fin 0, seg_total_rwa = Fin 0,
              avg_weighting = Fin 0 \<rparr>),
          (Str (ustr ''particulier''),
           \<lparr> count = 1, seg_total_exposure = Fin 0, seg_total_rwa = Fin 0,
              avg_weighting = Fin 0 \<rparr>)] \<rparr>"

text \<open>A domestic sovereign exposure, which weighs 0, with a given amount cell.\<close>

definition sovereign_row :: "pyval \<Rightarrow> row" where
  "sovereign_row amount =
     [''segment'' \<mapsto> Str (ustr ''souverain''),
      ''sous_segment'' \<mapsto> Str (ustr ''Etat du Maroc''),
      ''monnaie'' \<mapsto> Str (ustr ''MAD''),
      ''montant'' \<mapsto> amount]"

section \<open>Every resolver stays inside the closed set\<close>

lemmas str_eval =
  ustr_def py_lower_def py_upper_def py_strip_def lower_cp_def upper_cp_def is_space_def

lemmas row_eval =
  row_get_def py_str_def py_float_def double_overflow_def py_bool_def segment_row_def
  distressed_row_def sovereign_row_def str_eval

lemmas parse_eval =
  float_of_str_def split_sign_def digitpart_def digit_value_def digit_zeros_def
  ascii_lower_def decimal_value_def parse_exponent_def digits_val_def to_double_def

lemmas batch_eval =
  calculate_rwa_def row_result_def calculate_individual_weighting_def
  calculate_tpe_weighting_def calculate_individual_weighting_method_def
  f_mul_def f_gt_def f_add_def f_div_def average_weighting_of_def unique_def
  same_value_def py_eq_def segment_entry_def df_column_def Let_def

lemma weights_members:
  "0 \<in> weights" "1/5 \<in> weights" "7/20 \<in> weights" "1/2 \<in> weights"
  "3/4 \<in> weights" "1 \<in> weights" "3/2 \<in> weights"
  by (simp_all add: weights_def)

lemma weights_nonneg: "w \<in> weights \<Longrightarrow> 0 \<le> w"
  by (auto simp: weights_def)

lemma table_search_general: "table_search x general_table = Some w \<Longrightarrow> w \<in> weights"
  by (simp add: general_table_def weights_def split: if_splits)

lemma table_search_short: "table_search x short_term_table = Some w \<Longrightarrow> w \<in> weights"
  by (simp add: short_term_table_def weights_def split: if_splits)

lemma get_rating_weighting_weights: "get_rating_weighting x c \<in> weights"
proof (cases "table_search (py_strip (py_upper x))
    (if c = ''credit_short_term'' \<or> c = ''enterprise_short_term''
     then (case rating_weights c of Some t \<Rightarrow> t | None \<Rightarrow> [])
     else (case rating_weights ''general'' of Some t \<Rightarrow> t | None \<Rightarrow> []))")
  case None
  then show ?thesis
    by (simp add: get_rating_weighting_def Let_def weights_members)
next
  case (Some w)
  then have "w \<in> weights"
    by (auto simp: rating_weights_def dest: table_search_general table_search_short
        split: if_splits)
  with Some show ?thesis
    by (simp add: get_rating_weighting_def Let_def)
qed

lemma pmae_weights_weights: "pmae_weights k = Some w \<Longrightarrow> w \<in> weights"
  by (simp add: pmae_weights_def weights_def split: if_splits)

lemma sovereign_weights: "calculate_sovereign_weighting r \<in> weights"
  by (auto simp: calculate_sovereign_weighting_def Let_def weights_members
      dest: pmae_weights_weights split: option.splits)

lemma public_org_weights: "calculate_public_org_weighting r \<in> weights"
  by (simp add: calculate_public_org_weighting_def Let_def weights_members
      get_rating_weighting_weights)

lemma bmd_weights: "calculate_bmd_weighting r \<in> weights"
  by (simp add: calculate_bmd_weighting_def Let_def weights_members)

lemma credit_institution_weights: "calculate_credit_institution_weighting r \<in> weights"
  by (simp add: calculate_credit_institution_weighting_def Let_def weights_members
      get_rating_weighting_weights)

lemma enterprise_weights: "calculate_enterprise_weighting r \<in> weights"
  by (simp add: calculate_enterprise_weighting_def Let_def weights_members
      get_rating_weighting_weights)

lemma tpe_weights: "calculate_tpe_weighting r \<in> weights"
  by (simp add: calculate_tpe_weighting_def weights_def)

lemma individual_method_weights:
  "calculate_individual_weighting_method r = Inr w \<Longrightarrow> w \<in> weights"
  by (auto simp: calculate_individual_weighting_method_def weights_def
      split: sum.splits if_splits)

lemma loan_convention_weights: "loan_convention_etat r c = Inr w \<Longrightarrow> w \<in> weights"
  by (auto simp: loan_convention_etat_def weights_def split: sum.splits if_splits)

lemma loan_weights: "calculate_loan_weighting r = Inr w \<Longrightarrow> w \<in> weights"
  by (auto simp: calculate_loan_weighting_def Let_def weights_def
      dest: loan_convention_weights [unfolded weights_def] split: if_splits)

lemma distressed_weights: "calculate_distressed_debt_weighting r = Inr w \<Longrightarrow> w \<in> weights"
  by (auto simp: calculate_distressed_debt_weighting_def Let_def weights_def
      split: sum.splits if_splits)

lemma individual_weights: "calculate_individual_weighting r = Inr w \<Longrightarrow> w \<in> weights"
  by (auto simp: calculate_individual_weighting_def Let_def tpe_weights
      weights_members sovereign_weights public_org_weights bmd_weights
      credit_institution_weights enterprise_weights
      dest: individual_method_weights loan_weights distressed_weights split: if_splits)

text \<open>
  The only faults a resolver can raise are those of a failed \<^verbatim>\<open>float\<close>: \<^verbatim>\<open>ValueError\<close>
  and \<^verbatim>\<open>OverflowError\<close>. Its one division is guarded.
\<close>

lemma py_float_error: "py_float v = Inl e \<Longrightarrow> e = ValueError \<or> e = OverflowError"
  by (auto simp: py_float_def split: pyval.splits option.splits if_splits)

lemma f_div_returns: "\<not> f_eq y 0 \<Longrightarrow> f_div x y \<noteq> Inl err"
  by (cases y; cases x) (auto simp: f_div_def f_eq_def)

lemma f_gt_not_zero: "f_gt y 0 \<Longrightarrow> \<not> f_eq y 0"
  by (cases y) (auto simp: f_gt_def f_eq_def)

lemma individual_method_error:
  "calculate_individual_weighting_method r = Inl e \<Longrightarrow> e = ValueError \<or> e = OverflowError"
  by (auto simp: calculate_individual_weighting_method_def dest: py_float_error
      split: sum.splits if_splits)

lemma loan_convention_error:
  "loan_convention_etat r c = Inl e \<Longrightarrow> e = ValueError \<or> e = OverflowError"
  using f_div_returns [OF f_gt_not_zero]
  by (auto simp: loan_convention_etat_def dest: py_float_error split: sum.splits if_splits)

lemma loan_error: "calculate_loan_weighting r = Inl e \<Longrightarrow> e = ValueError \<or> e = OverflowError"
  by (auto simp: calculate_loan_weighting_def Let_def dest: loan_convention_error
      split: if_splits)

lemma distressed_error:
  "calculate_distressed_debt_weighting r = Inl e \<Longrightarrow> e = ValueError \<or> e = OverflowError"
  using f_div_returns
  by (auto simp: calculate_distressed_debt_weighting_def Let_def dest: py_float_error
      split: sum.splits if_splits)

lemma individual_error:
  "calculate_individual_weighting r = Inl e \<Longrightarrow> e = ValueError \<or> e = OverflowError"
  by (auto simp: calculate_individual_weighting_def Let_def
      dest: individual_method_error loan_error distressed_error split: if_splits)

lemma row_result_Inr:
  "row_result r = Inr x \<Longrightarrow>
     calculate_individual_weighting r = Inr (ponderation x)
     \<and> py_float (row_get r ''montant'' (Num 0 (ustr ''0''))) = Inr (montant x)
     \<and> segment x = row_get r ''segment'' (Str [])
     \<and> rwa x = f_mul (montant x) (ponderation x)"
  by (auto simp: row_result_def split: sum.splits)

lemma f_mul_nonneg:
  "0 \<le> w \<Longrightarrow> f_ge m 0 \<Longrightarrow> \<not> (m = PInf \<and> w = 0) \<Longrightarrow> f_ge (f_mul m w) 0"
  by (cases m) (auto simp: f_ge_def f_mul_def)

lemma f_mul_inf_zero: "f_mul PInf 0 = FNaN"
  by (simp add: f_mul_def)

text \<open>A resolver returns a weight as soon as the numeric fields it may read convert.\<close>

lemma individual_method_returns:
  "py_float (row_get r ''montant'' (Num 0 (ustr ''0''))) = Inr m \<Longrightarrow>
   calculate_individual_weighting_method r \<noteq> Inl err"
  by (simp add: calculate_individual_weighting_method_def)

lemma loan_convention_returns:
  assumes "py_float (row_get r ''valeur_bien_hypotheque'' (Num 0 (ustr ''0''))) = Inr v"
    and "py_float (row_get r ''montant'' (Num 0 (ustr ''0''))) = Inr m"
  shows "loan_convention_etat r c \<noteq> Inl err"
  using assms f_div_returns [OF f_gt_not_zero, of v m]
  by (auto simp: loan_convention_etat_def split: sum.splits)

lemma loan_returns:
  assumes "py_float (row_get r ''valeur_bien_hypotheque'' (Num 0 (ustr ''0''))) = Inr v"
    and "py_float (row_get r ''montant'' (Num 0 (ustr ''0''))) = Inr m"
  shows "calculate_loan_weighting r \<noteq> Inl err"
  using loan_convention_returns [OF assms]
  by (simp add: calculate_loan_weighting_def Let_def)

lemma distressed_returns:
  assumes "py_float (row_get r ''valeur_encours_creance'' (Num 0 (ustr ''0''))) = Inr e"
    and "py_float (row_get r ''provision_constitue'' (Num 0 (ustr ''0''))) = Inr p"
  shows "calculate_distressed_debt_weighting r \<noteq> Inl err"
  using assms f_div_returns [of e p]
  by (auto simp: calculate_distressed_debt_weighting_def Let_def split: sum.splits)

lemma individual_returns:
  assumes "py_float (row_get r ''montant'' (Num 0 (ustr ''0''))) = Inr m"
    and "py_float (row_get r ''valeur_bien_hypotheque'' (Num 0 (ustr ''0''))) = Inr v"
    and "py_float (row_get r ''valeur_encours_creance'' (Num 0 (ustr ''0''))) = Inr e"
    and "py_float (row_get r ''provision_constitue'' (Num 0 (ustr ''0''))) = Inr p"
  shows "\<exists>w. calculate_individual_weighting r = Inr w"
proof -
  have "calculate_individual_weighting r \<noteq> Inl err" for err
    using individual_method_returns [OF assms(1)] loan_returns [OF assms(2,1)]
      distressed_returns [OF assms(3,4)]
    by (simp add: calculate_individual_weighting_def Let_def)
  then show ?thesis by (cases "calculate_individual_weighting r") auto
qed

section \<open>Claims\<close>

text \<open>
  C1, as the code has it. The claim as written fails for an infinite amount on a
  weight of 0: a domestic sovereign exposure whose amount cell holds the float
  infinity (or the text \<^verbatim>\<open>inf\<close>) has amount \<^verbatim>\<open>inf\<close>, which is at least 0, weight 0 and
  RWA \<^verbatim>\<open>inf * 0.0\<close>, which is \<^verbatim>\<open>nan\<close> and not at least 0.
\<close>

theorem infinite_amount_zero_weight:
  "row_result (sovereign_row PosInf)
     = Inr \<lparr> segment = Str (ustr ''souverain''), sous_segment = Str (ustr ''Etat du Maroc''),
              montant = PInf, ponderation = 0, rwa = FNaN \<rparr>
   \<and> row_result (sovereign_row (Str (ustr ''inf'')))
     = Inr \<lparr> segment = Str (ustr ''souverain''), sous_segment = Str (ustr ''Etat du Maroc''),
              montant = PInf, ponderation = 0, rwa = FNaN \<rparr>
   \<and> f_ge PInf 0 \<and> \<not> f_ge FNaN 0"
  by (simp add: row_result_def calculate_individual_weighting_def
      calculate_sovereign_weighting_def f_mul_def f_ge_def row_eval parse_eval)

text \<open>
  C1, amended. For every exposure row, the weight computed by
  \<^verbatim>\<open>_calculate_individual_weighting\<close> is one of 0, 0.20, 0.35, 0.50, 0.75, 1.00, 1.50, and
  the RWA of the row (amount times weight) is at least 0 whenever the amount is at
  least 0, except for an infinite amount on a weight of 0, where the RWA is \<^verbatim>\<open>nan\<close>. A
  weight and a result row are produced whenever the four numeric fields convert.
\<close>

theorem weight_in_closed_set:
  "(\<forall>w. calculate_individual_weighting r = Inr w \<longrightarrow> w \<in> weights)
   \<and> (\<forall>x. row_result r = Inr x \<longrightarrow>
          ponderation x \<in> weights
          \<and> rwa x = f_mul (montant x) (ponderation x)
          \<and> (f_ge (montant x) 0 \<and> \<not> (montant x = PInf \<and> ponderation x = 0)
               \<longrightarrow> f_ge (rwa x) 0)
          \<and> (montant x = PInf \<and> ponderation x = 0 \<longrightarrow> rwa x = FNaN))
   \<and> ((\<exists>m. py_float (row_get r ''montant'' (Num 0 (ustr ''0''))) = Inr m)
        \<and> (\<exists>v. py_float (row_get r ''valeur_bien_hypotheque'' (Num 0 (ustr ''0''))) = Inr v)
        \<and> (\<exists>e. py_float (row_get r ''valeur_encours_creance'' (Num 0 (ustr ''0''))) = Inr e)
        \<and> (\<exists>p. py_float (row_get r ''provision_constitue'' (Num 0 (ustr ''0''))) = Inr p)
       \<longrightarrow> (\<exists>x. row_result r = Inr x))"
proof (intro conjI allI impI)
  fix w assume "calculate_individual_weighting r = Inr w"
  then show "w \<in> weights" by (rule individual_weights)
next
  fix x assume x: "row_result r = Inr x"
  then show "ponderation x \<in> weights"
    using row_result_Inr [OF x] individual_weights by blast
next
  fix x assume x: "row_result r = Inr x"
  then show "rwa x = f_mul (montant x) (ponderation x)"
    using row_result_Inr [OF x] by blast
next
  fix x assume x: "row_result r = Inr x"
    and m: "f_ge (montant x) 0 \<and> \<not> (montant x = PInf \<and> ponderation x = 0)"
  have "ponderation x \<in> weights"
    using row_result_Inr [OF x] individual_weights by blast
  then have "0 \<le> ponderation x" by (rule weights_nonneg)
  then have "f_ge (f_mul (montant x) (ponderation x)) 0"
    using m by (intro f_mul_nonneg) auto
  then show "f_ge (rwa x) 0" using row_result_Inr [OF x] by simp
next
  fix x assume x: "row_result r = Inr x"
    and m: "montant x = PInf \<and> ponderation x = 0"
  then show "rwa x = FNaN"
    using row_result_Inr [OF x] by (simp add: f_mul_inf_zero)
next
  assume a: "(\<exists>m. py_float (row_get r ''montant'' (Num 0 (ustr ''0''))) = Inr m)
        \<and> (\<exists>v. py_float (row_get r ''valeur_bien_hypotheque'' (Num 0 (ustr ''0''))) = Inr v)
        \<and> (\<exists>e. py_float (row_get r ''valeur_encours_creance'' (Num 0 (ustr ''0''))) = Inr e)
        \<and> (\<exists>p. py_float (row_get r ''provision_constitue'' (Num 0 (ustr ''0''))) = Inr p)"
  then obtain m where m: "py_float (row_get r ''montant'' (Num 0 (ustr ''0''))) = Inr m"
    by blast
  from a obtain w where "calculate_individual_weighting r = Inr w"
    using individual_returns by blast
  with m show "\<exists>x. row_result r = Inr x" by (simp add: row_result_def)
qed

theorem weight_in_closed_set_witness:
  "row_result (segment_row ''tpe'' (Num 100 (ustr ''100'')))
     = Inr \<lparr> segment = Str (ustr ''tpe''), sous_segment = Str [], montant = Fin 100,
              ponderation = 3/4, rwa = Fin 75 \<rparr>
   \<and> (3/4 :: rat) \<in> weights \<and> f_ge (Fin 100) 0 \<and> f_ge (Fin 75) 0
   \<and> row_result (segment_row ''tpe'' PosInf)
     = Inr \<lparr> segment = Str (ustr ''tpe''), sous_segment = Str [], montant = PInf,
              ponderation = 3/4, rwa = PInf \<rparr>
   \<and> f_ge PInf 0"
proof -
  let ?r = "segment_row ''tpe'' (Num 100 (ustr ''100''))"
  let ?x = "\<lparr> segment = Str (ustr ''tpe''), sous_segment = Str [], montant = Fin 100,
              ponderation = 3/4, rwa = Fin 75 \<rparr>"
  let ?s = "segment_row ''tpe'' PosInf"
  let ?y = "\<lparr> segment = Str (ustr ''tpe''), sous_segment = Str [], montant = PInf,
              ponderation = 3/4, rwa = PInf \<rparr>"
  have x: "row_result ?r = Inr ?x"
    by (simp add: batch_eval row_eval)
  have amount: "f_ge (montant ?x) 0 \<and> \<not> (montant ?x = PInf \<and> ponderation ?x = 0)"
    by (simp add: f_ge_def)
  from weight_in_closed_set [of ?r] x amount
  have 1: "ponderation ?x \<in> weights \<and> f_ge (rwa ?x) 0" by blast
  have y: "row_result ?s = Inr ?y"
    by (simp add: batch_eval row_eval)
  have infinite: "f_ge (montant ?y) 0 \<and> \<not> (montant ?y = PInf \<and> ponderation ?y = 0)"
    by (simp add: f_ge_def)
  from weight_in_closed_set [of ?s] y infinite
  have 2: "f_ge (rwa ?y) 0" by blast
  from x amount 1 y 2 show ?thesis by simp
qed

text \<open>
  C2. For the general category, a blank rating is meant to get the unrated default 0.50.
  The method returns 0.20 for it: the empty string is contained in the first key of
  the table, so the loop over the table returns that key's weight. The same happens for
  a rating made of blanks, and the credit-institution resolver passes the empty rating
  to the method (maturity below three months, foreign currency, no rating) and gets
  0.20 as well. A rating that meets no table key and none of the letter tests does get
  0.50.
\<close>

theorem blank_rating_gets_first_bucket:
  "get_rating_weighting [] ''general'' = 1/5
   \<and> get_rating_weighting (ustr ''   '') ''general'' = 1/5
   \<and> calculate_individual_weighting
       [''segment'' \<mapsto> Str (ustr ''etablissement_credit''),
        ''echeance_initiale'' \<mapsto> Str (ustr ''< 3 mois''),
        ''monnaie'' \<mapsto> Str (ustr ''EUR'')] = Inr (1/5)
   \<and> get_rating_weighting (ustr ''XYZ'') ''general'' = 1/2"
  by (simp add: get_rating_weighting_def rating_weights_def general_table_def str_eval
      calculate_individual_weighting_def calculate_credit_institution_weighting_def
      row_get_def py_str_def)

section \<open>Dispatch on the lower-cased segment\<close>


lemma dispatch_sovereign:
  "py_lower (py_str (row_get r ''segment'' (Str []))) = ustr ''souverain'' \<Longrightarrow>
   calculate_individual_weighting r = Inr (calculate_sovereign_weighting r)"
  by (simp add: calculate_individual_weighting_def ustr_def)

lemma dispatch_enterprise:
  "py_lower (py_str (row_get r ''segment'' (Str []))) = ustr ''entreprise'' \<Longrightarrow>
   calculate_individual_weighting r = Inr (calculate_enterprise_weighting r)"
  by (simp add: calculate_individual_weighting_def ustr_def)

lemma dispatch_individual:
  "py_lower (py_str (row_get r ''segment'' (Str []))) = ustr ''particulier'' \<Longrightarrow>
   calculate_individual_weighting r = calculate_individual_weighting_method r"
  by (simp add: calculate_individual_weighting_def ustr_def)



text \<open>
  C4, as the code has it. The claim as written fails: the short-term clause comes
  first, so an enterprise exposure of a group with bank debt 600,000,000, no
  Bank-Al-Maghrib agreement, maturity \<^verbatim>\<open>< 1 an\<close> and short-term rating \<^verbatim>\<open>A-1\<close> gets 0.20.
\<close>

theorem enterprise_short_term_rating_first:
  "calculate_individual_weighting
     [''segment'' \<mapsto> Str (ustr ''entreprise''),
      ''appart_grpe'' \<mapsto> Bool True,
      ''dette_banc'' \<mapsto> Num 600000000 (ustr ''600000000''),
      ''echeance'' \<mapsto> Str (ustr ''< 1 an''),
      ''note_inf_1an'' \<mapsto> Str (ustr ''A-1'')] = Inr (1/5)"
  by (simp add: calculate_individual_weighting_def calculate_enterprise_weighting_def
      get_rating_weighting_def rating_weights_def short_term_table_def
      row_get_def py_str_def str_eval)

text \<open>
  C4, amended. For every enterprise exposure with the group-affiliation flag set, bank
  debt 600,000,000 and no Bank-Al-Maghrib agreement flag, on which the short-term
  clause does not fire (the maturity contains neither \<^verbatim>\<open>< 1 an\<close> nor \<^verbatim>\<open>inf 1 an\<close>, or the
  short-term rating is empty), the weight is 1.50 whatever the external rating
  \<^verbatim>\<open>note_externe\<close> holds.
\<close>

theorem enterprise_group_weight:
  assumes "py_lower (py_str (row_get r ''segment'' (Str []))) = ustr ''entreprise''"
    and "py_bool (row_get r ''appart_grpe'' (Bool False))"
    and "\<not> py_bool (row_get r ''accord_bank_maghrib'' (Bool False))"
    and "py_float (row_get r ''dette_banc'' (Num 0 (ustr ''0''))) = Inr (Fin 600000000)"
    and "\<not> (str_in (ustr ''< 1 an'') (py_lower (py_str (row_get r ''echeance'' (Str []))))
            \<or> str_in (ustr ''inf 1 an'') (py_lower (py_str (row_get r ''echeance'' (Str [])))))
         \<or> py_str (row_get r ''note_inf_1an'' (Str [])) = []"
  shows "calculate_individual_weighting (r(''note_externe'' := v)) = Inr (3/2)"
proof -
  have "py_lower (py_str (row_get (r(''note_externe'' := v)) ''segment'' (Str [])))
        = ustr ''entreprise''"
    using assms(1) by (simp add: row_get_def)
  then have "calculate_individual_weighting (r(''note_externe'' := v))
             = Inr (calculate_enterprise_weighting (r(''note_externe'' := v)))"
    by (rule dispatch_enterprise)
  moreover have "calculate_enterprise_weighting (r(''note_externe'' := v)) = 3/2"
    using assms(2,3,5) by (auto simp: calculate_enterprise_weighting_def Let_def row_get_def)
  ultimately show ?thesis by simp
qed

theorem enterprise_group_weight_witness:
  "calculate_individual_weighting
     [''segment'' \<mapsto> Str (ustr ''Entreprise''),
      ''appart_grpe'' \<mapsto> Bool True,
      ''dette_banc'' \<mapsto> Num 600000000 (ustr ''600000000''),
      ''note_externe'' \<mapsto> Str (ustr ''AAA'')] = Inr (3/2)"
proof -
  let ?r = "[''segment'' \<mapsto> Str (ustr ''Entreprise''),
             ''appart_grpe'' \<mapsto> Bool True,
             ''dette_banc'' \<mapsto> Num 600000000 (ustr ''600000000'')]"
  have seg: "py_lower (py_str (row_get ?r ''segment'' (Str []))) = ustr ''entreprise''"
    by (simp add: row_eval)
  have grp: "py_bool (row_get ?r ''appart_grpe'' (Bool False))"
    by (simp add: row_eval)
  have bam: "\<not> py_bool (row_get ?r ''accord_bank_maghrib'' (Bool False))"
    by (simp add: row_eval)
  have debt: "py_float (row_get ?r ''dette_banc'' (Num 0 (ustr ''0''))) = Inr (Fin 600000000)"
    by (simp add: row_eval)
  have short: "\<not> (str_in (ustr ''< 1 an'') (py_lower (py_str (row_get ?r ''echeance'' (Str []))))
            \<or> str_in (ustr ''inf 1 an'') (py_lower (py_str (row_get ?r ''echeance'' (Str [])))))
         \<or> py_str (row_get ?r ''note_inf_1an'' (Str [])) = []"
    by (simp add: row_eval)
  have "calculate_individual_weighting (?r(''note_externe'' := Some (Str (ustr ''AAA''))))
        = Inr (3/2)"
    by (rule enterprise_group_weight [OF seg grp bam debt short])
  then show ?thesis by simp
qed

text \<open>
  C5, as the code has it. The claim as written fails for the English name: a
  sovereign exposure in MAD whose sub-segment is \<^verbatim>\<open>Morocco\<close> matches none of the tested
  names and, unrated, gets 1.00.
\<close>

theorem sovereign_morocco_not_matched:
  "calculate_individual_weighting
     [''segment'' \<mapsto> Str (ustr ''souverain''),
      ''sous_segment'' \<mapsto> Str (ustr ''Morocco''),
      ''monnaie'' \<mapsto> Str (ustr ''MAD'')] = Inr 1"
  by (simp add: calculate_individual_weighting_def calculate_sovereign_weighting_def
      supranationals_def any_in_def row_get_def py_str_def str_eval)

text \<open>
  C5, amended. For every sovereign exposure whose lower-cased sub-segment contains
  \<^verbatim>\<open>maroc\<close>, \<^verbatim>\<open>bam\<close> or \<^verbatim>\<open>bank al-maghrib\<close> and whose upper-cased currency is \<^verbatim>\<open>MAD\<close>, the
  weight is 0 whatever the external-rating and PMAE fields hold.
\<close>

theorem sovereign_domestic_weight:
  assumes "py_lower (py_str (row_get r ''segment'' (Str []))) = ustr ''souverain''"
    and "str_in (ustr ''maroc'') (py_lower (py_str (row_get r ''sous_segment'' (Str []))))
         \<or> str_in (ustr ''bam'') (py_lower (py_str (row_get r ''sous_segment'' (Str []))))
         \<or> str_in (ustr ''bank al-maghrib'')
              (py_lower (py_str (row_get r ''sous_segment'' (Str []))))"
    and "py_upper (py_str (row_get r ''monnaie'' (Str []))) = ustr ''MAD''"
  shows "calculate_individual_weighting (r(''note_externe'' := v, ''note_pmae'' := p)) = Inr 0"
proof -
  let ?r = "r(''note_externe'' := v, ''note_pmae'' := p)"
  have "py_lower (py_str (row_get ?r ''segment'' (Str []))) = ustr ''souverain''"
    using assms(1) by (simp add: row_get_def)
  then have "calculate_individual_weighting ?r = Inr (calculate_sovereign_weighting ?r)"
    by (rule dispatch_sovereign)
  moreover have "calculate_sovereign_weighting ?r = 0"
    using assms(2,3) by (auto simp: calculate_sovereign_weighting_def Let_def row_get_def)
  ultimately show ?thesis by simp
qed

theorem sovereign_domestic_weight_witness:
  "calculate_individual_weighting
     [''segment'' \<mapsto> Str (ustr ''souverain''),
      ''sous_segment'' \<mapsto> Str (ustr ''Etat du Maroc''),
      ''monnaie'' \<mapsto> Str (ustr ''mad''),
      ''note_externe'' \<mapsto> Str (ustr ''CCC''),
      ''note_pmae'' \<mapsto> Str (ustr ''7'')] = Inr 0"
proof -
  let ?r = "[''segment'' \<mapsto> Str (ustr ''souverain''),
             ''sous_segment'' \<mapsto> Str (ustr ''Etat du Maroc''),
             ''monnaie'' \<mapsto> Str (ustr ''mad'')]"
  have seg: "py_lower (py_str (row_get ?r ''segment'' (Str []))) = ustr ''souverain''"
    by (simp add: row_eval)
  have sub: "str_in (ustr ''maroc'') (py_lower (py_str (row_get ?r ''sous_segment'' (Str []))))
         \<or> str_in (ustr ''bam'') (py_lower (py_str (row_get ?r ''sous_segment'' (Str []))))
         \<or> str_in (ustr ''bank al-maghrib'')
              (py_lower (py_str (row_get ?r ''sous_segment'' (Str []))))"
    by (simp add: row_eval)
  have cur: "py_upper (py_str (row_get ?r ''monnaie'' (Str []))) = ustr ''MAD''"
    by (simp add: row_eval)
  have "calculate_individual_weighting
          (?r(''note_externe'' := Some (Str (ustr ''CCC'')), ''note_pmae'' := Some (Str (ustr ''7''))))
        = Inr 0"
    by (rule sovereign_domestic_weight [OF seg sub cur])
  then show ?thesis by simp
qed

text \<open>
  C9. For every exposure with segment \<^verbatim>\<open>particulier\<close> whose amount converts to a
  number, the weight is 1.00 when the amount exceeds 1,000,000 and 0.75 otherwise, and
  it does not depend on the mortgage-guarantee flag.
\<close>

theorem particulier_weight:
  assumes "py_lower (py_str (row_get r ''segment'' (Str []))) = ustr ''particulier''"
    and "py_float (row_get r ''montant'' (Num 0 (ustr ''0''))) = Inr m"
  shows "calculate_individual_weighting r = Inr (if f_gt m 1000000 then 1 else 3/4)
     \<and> calculate_individual_weighting (r(''garanti_hypotheque'' := g))
         = calculate_individual_weighting r"
proof -
  have "py_lower (py_str (row_get (r(''garanti_hypotheque'' := g)) ''segment'' (Str [])))
        = ustr ''particulier''"
    using assms(1) by (simp add: row_get_def)
  then show ?thesis
    using assms
    by (simp add: dispatch_individual calculate_individual_weighting_method_def row_get_def)
qed

theorem particulier_weight_witness:
  "calculate_individual_weighting
     (segment_row ''particulier'' (Num 1500000 (ustr ''1500000''))) = Inr 1
   \<and> calculate_individual_weighting
     (segment_row ''particulier'' (Num 900000 (ustr ''900000''))) = Inr (3/4)
   \<and> calculate_individual_weighting
     (segment_row ''particulier'' (Num 1000000 (ustr ''1000000''))) = Inr (3/4)
   \<and> calculate_individual_weighting
     ((segment_row ''particulier'' (Num 1500000 (ustr ''1500000'')))
        (''garanti_hypotheque'' \<mapsto> Bool False)) = Inr 1"
proof -
  have seg: "py_lower (py_str (row_get (segment_row ''particulier'' a) ''segment'' (Str [])))
             = ustr ''particulier''" for a
    by (simp add: row_eval)
  have amount: "py_float (row_get (segment_row ''particulier'' (Num a t)) ''montant''
             (Num 0 (ustr ''0''))) = Inr (Fin a)" if "\<bar>a\<bar> \<le> 1500000" for a t
    using that by (simp add: row_eval)
  show ?thesis
    using particulier_weight [OF seg amount, of _ _ "Some (Bool False)"]
    by (simp add: f_gt_def)
qed

section \<open>The dispatcher reads the segment only through its lower-cased text\<close>

lemma row_get_other:
  "k \<noteq> ''segment'' \<Longrightarrow> row_get (r(''segment'' \<mapsto> a)) k d = row_get r k d"
  by (simp add: row_get_def)

lemma resolvers_ignore_segment:
  "calculate_distressed_debt_weighting (r(''segment'' \<mapsto> a)) = calculate_distressed_debt_weighting r"
  "calculate_sovereign_weighting (r(''segment'' \<mapsto> a)) = calculate_sovereign_weighting r"
  "calculate_public_org_weighting (r(''segment'' \<mapsto> a)) = calculate_public_org_weighting r"
  "calculate_bmd_weighting (r(''segment'' \<mapsto> a)) = calculate_bmd_weighting r"
  "calculate_credit_institution_weighting (r(''segment'' \<mapsto> a)) = calculate_credit_institution_weighting r"
  "calculate_enterprise_weighting (r(''segment'' \<mapsto> a)) = calculate_enterprise_weighting r"
  "calculate_tpe_weighting (r(''segment'' \<mapsto> a)) = calculate_tpe_weighting r"
  "calculate_individual_weighting_method (r(''segment'' \<mapsto> a)) = calculate_individual_weighting_method r"
  "calculate_loan_weighting (r(''segment'' \<mapsto> a)) = calculate_loan_weighting r"
  by (simp_all add: calculate_distressed_debt_weighting_def calculate_sovereign_weighting_def
      calculate_public_org_weighting_def calculate_bmd_weighting_def
      calculate_credit_institution_weighting_def calculate_enterprise_weighting_def
      calculate_tpe_weighting_def calculate_individual_weighting_method_def
      calculate_loan_weighting_def loan_convention_etat_def row_get_other Let_def
      split del: if_split cong: if_cong sum.case_cong)

lemma dispatch_on_lower:
  "calculate_individual_weighting (r(''segment'' \<mapsto> a)) =
     (let seg = py_lower (py_str a)
      in if seg = ustr ''creance_souffrance'' then calculate_distressed_debt_weighting r
         else if seg = ustr ''souverain'' then Inr (calculate_sovereign_weighting r)
         else if seg = ustr ''organisme_public'' then Inr (calculate_public_org_weighting r)
         else if seg = ustr ''bmd'' then Inr (calculate_bmd_weighting r)
         else if seg = ustr ''etablissement_credit''
         then Inr (calculate_credit_institution_weighting r)
         else if seg = ustr ''entreprise'' then Inr (calculate_enterprise_weighting r)
         else if seg = ustr ''tpe'' then Inr (calculate_tpe_weighting r)
         else if seg = ustr ''particulier'' then calculate_individual_weighting_method r
         else if seg = ustr ''pret'' then calculate_loan_weighting r
         else Inr 1)"
  by (simp add: calculate_individual_weighting_def resolvers_ignore_segment Let_def
      row_get_def split del: if_split cong: if_cong sum.case_cong)

lemma case_variant_lower:
  assumes "case_variant s name" and "\<forall>d \<in> set name. (97 \<le> d \<and> d \<le> 122) \<or> d = 95"
  shows "py_lower s = name"
proof -
  have "list_all2 (\<lambda>c d. c = d \<or> (97 \<le> d \<and> d \<le> 122 \<and> d = c + 32)) s name"
    using assms(1) by (simp add: case_variant_def)
  then show ?thesis
    using assms(2)
  proof (induction rule: list_all2_induct)
    case Nil
    show ?case by (simp add: py_lower_def)
  next
    case (Cons c s d name)
    have "lower_cp c = [d]"
      using Cons.hyps(1) Cons.prems by (auto simp: lower_cp_def)
    moreover have "py_lower s = name"
      using Cons.IH Cons.prems by simp
    ultimately show ?case by (simp add: py_lower_def)
  qed
qed

lemma known_segments_small:
  "name \<in> set known_segments \<Longrightarrow> \<forall>d \<in> set name. (97 \<le> d \<and> d \<le> 122) \<or> d = 95"
  by (auto simp: known_segments_def ustr_def)

text \<open>
  C7, as the code has it. The claim as written fails on surrounding whitespace: the
  dispatcher lower-cases the segment but does not strip it, so \<^verbatim>\<open>' tpe '\<close> is an
  unknown segment and gets 1.00, while \<^verbatim>\<open>'tpe'\<close> gets 0.75.
\<close>

theorem whitespace_not_normalised:
  "py_strip (ustr '' tpe '') = ustr ''tpe''
   \<and> calculate_individual_weighting [''segment'' \<mapsto> Str (ustr '' tpe '')] = Inr 1
   \<and> calculate_individual_weighting [''segment'' \<mapsto> Str (ustr ''tpe'')] = Inr (3/4)"
  by (simp add: calculate_individual_weighting_def calculate_tpe_weighting_def
      row_get_def py_str_def str_eval)

text \<open>
  C7, amended. Segment dispatch is total and case-normalised, not whitespace-normalised:
  a segment string whose lower-cased text is a known segment name resolves to that
  segment's resolver, and every string that differs from a known segment name only in
  letter case has that name as its lower-cased text;
  a segment string whose lower-cased text is none of the nine names gets weight 1.00
  without any fault, so that the row's RWA is its amount (500,000 for an exposure of
  500,000 with segment \<^verbatim>\<open>unknown_type\<close>); and two segment strings with the same lower-cased
  text resolve alike on an otherwise equal row.
\<close>

theorem segment_dispatch:
  "(\<forall>name \<in> set known_segments.
      case_variant (py_str (row_get r ''segment'' (Str []))) name \<longrightarrow>
      py_lower (py_str (row_get r ''segment'' (Str []))) = name)
   \<and> (py_lower (py_str (row_get r ''segment'' (Str []))) = ustr ''creance_souffrance'' \<longrightarrow>
      calculate_individual_weighting r = calculate_distressed_debt_weighting r)
   \<and> (py_lower (py_str (row_get r ''segment'' (Str []))) = ustr ''souverain'' \<longrightarrow>
      calculate_individual_weighting r = Inr (calculate_sovereign_weighting r))
   \<and> (py_lower (py_str (row_get r ''segment'' (Str []))) = ustr ''organisme_public'' \<longrightarrow>
      calculate_individual_weighting r = Inr (calculate_public_org_weighting r))
   \<and> (py_lower (py_str (row_get r ''segment'' (Str []))) = ustr ''bmd'' \<longrightarrow>
      calculate_individual_weighting r = Inr (calculate_bmd_weighting r))
   \<and> (py_lower (py_str (row_get r ''segment'' (Str []))) = ustr ''etablissement_credit'' \<longrightarrow>
      calculate_individual_weighting r = Inr (calculate_credit_institution_weighting r))
   \<and> (py_lower (py_str (row_get r ''segment'' (Str []))) = ustr ''entreprise'' \<longrightarrow>
      calculate_individual_weighting r = Inr (calculate_enterprise_weighting r))
   \<and> (py_lower (py_str (row_get r ''segment'' (Str []))) = ustr ''tpe'' \<longrightarrow>
      calculate_individual_weighting r = Inr (calculate_tpe_weighting r))
   \<and> (py_lower (py_str (row_get r ''segment'' (Str []))) = ustr ''particulier'' \<longrightarrow>
      calculate_individual_weighting r = calculate_individual_weighting_method r)
   \<and> (py_lower (py_str (row_get r ''segment'' (Str []))) = ustr ''pret'' \<longrightarrow>
      calculate_individual_weighting r = calculate_loan_weighting r)
   \<and> (py_lower (py_str (row_get r ''segment'' (Str []))) \<notin> set known_segments \<longrightarrow>
        calculate_individual_weighting r = Inr 1
        \<and> (\<forall>m. py_float (row_get r ''montant'' (Num 0 (ustr ''0''))) = Inr m \<longrightarrow>
              (\<exists>x. row_result r = Inr x \<and> ponderation x = 1 \<and> montant x = m
                    \<and> rwa x = f_mul m 1)))
   \<and> (py_lower (py_str a) = py_lower (py_str b) \<longrightarrow>
      calculate_individual_weighting (r(''segment'' \<mapsto> a))
      = calculate_individual_weighting (r(''segment'' \<mapsto> b)))"
proof (intro conjI impI ballI)
  fix name
  assume "name \<in> set known_segments"
    and "case_variant (py_str (row_get r ''segment'' (Str []))) name"
  then show "py_lower (py_str (row_get r ''segment'' (Str []))) = name"
    using case_variant_lower known_segments_small by blast
next
  assume "py_lower (py_str (row_get r ''segment'' (Str []))) = ustr ''creance_souffrance''"
  then show "calculate_individual_weighting r = calculate_distressed_debt_weighting r"
    by (simp add: calculate_individual_weighting_def)
next
  assume "py_lower (py_str (row_get r ''segment'' (Str []))) = ustr ''souverain''"
  then show "calculate_individual_weighting r = Inr (calculate_sovereign_weighting r)"
    by (simp add: calculate_individual_weighting_def ustr_def)
next
  assume "py_lower (py_str (row_get r ''segment'' (Str []))) = ustr ''organisme_public''"
  then show "calculate_individual_weighting r = Inr (calculate_public_org_weighting r)"
    by (simp add: calculate_individual_weighting_def ustr_def)
next
  assume "py_lower (py_str (row_get r ''segment'' (Str []))) = ustr ''bmd''"
  then show "calculate_individual_weighting r = Inr (calculate_bmd_weighting r)"
    by (simp add: calculate_individual_weighting_def ustr_def)
next
  assume "py_lower (py_str (row_get r ''segment'' (Str []))) = ustr ''etablissement_credit''"
  then show "calculate_individual_weighting r = Inr (calculate_credit_institution_weighting r)"
    by (simp add: calculate_individual_weighting_def ustr_def)
next
  assume "py_lower (py_str (row_get r ''segment'' (Str []))) = ustr ''entreprise''"
  then show "calculate_individual_weighting r = Inr (calculate_enterprise_weighting r)"
    by (simp add: calculate_individual_weighting_def ustr_def)
next
  assume "py_lower (py_str (row_get r ''segment'' (Str []))) = ustr ''tpe''"
  then show "calculate_individual_weighting r = Inr (calculate_tpe_weighting r)"
    by (simp add: calculate_individual_weighting_def ustr_def)
next
  assume "py_lower (py_str (row_get r ''segment'' (Str []))) = ustr ''particulier''"
  then show "calculate_individual_weighting r = calculate_individual_weighting_method r"
    by (simp add: calculate_individual_weighting_def ustr_def)
next
  assume "py_lower (py_str (row_get r ''segment'' (Str []))) = ustr ''pret''"
  then show "calculate_individual_weighting r = calculate_loan_weighting r"
    by (simp add: calculate_individual_weighting_def ustr_def)
next
  assume u: "py_lower (py_str (row_get r ''segment'' (Str []))) \<notin> set known_segments"
  then show w: "calculate_individual_weighting r = Inr 1"
    by (simp add: calculate_individual_weighting_def known_segments_def)
  show "\<forall>m. py_float (row_get r ''montant'' (Num 0 (ustr ''0''))) = Inr m \<longrightarrow>
              (\<exists>x. row_result r = Inr x \<and> ponderation x = 1 \<and> montant x = m
                    \<and> rwa x = f_mul m 1)"
    using w by (simp add: row_result_def)
next
  assume "py_lower (py_str a) = py_lower (py_str b)"
  then show "calculate_individual_weighting (r(''segment'' \<mapsto> a))
      = calculate_individual_weighting (r(''segment'' \<mapsto> b))"
    by (simp add: dispatch_on_lower)
qed

theorem segment_dispatch_witness:
  "calculate_individual_weighting (segment_row ''TPE'' (Num 500000 (ustr ''500000'')))
     = Inr (calculate_tpe_weighting (segment_row ''TPE'' (Num 500000 (ustr ''500000''))))
   \<and> calculate_individual_weighting (segment_row ''TPE'' (Num 500000 (ustr ''500000'')))
     = Inr (3/4)
   \<and> calculate_individual_weighting
       (segment_row ''Particulier'' (Num 1500000 (ustr ''1500000''))) = Inr 1
   \<and> calculate_individual_weighting
       (segment_row ''unknown_type'' (Num 500000 (ustr ''500000''))) = Inr 1
   \<and> row_result (segment_row ''unknown_type'' (Num 500000 (ustr ''500000'')))
     = Inr \<lparr> segment = Str (ustr ''unknown_type''), sous_segment = Str [],
              montant = Fin 500000, ponderation = 1, rwa = Fin 500000 \<rparr>
   \<and> calculate_individual_weighting
       ((segment_row ''tpe'' (Num 500000 (ustr ''500000'')))(''segment'' \<mapsto> Str (ustr ''Tpe'')))
     = calculate_individual_weighting
       ((segment_row ''tpe'' (Num 500000 (ustr ''500000'')))(''segment'' \<mapsto> Str (ustr ''tPE'')))"
proof -
  let ?t = "segment_row ''TPE'' (Num 500000 (ustr ''500000''))"
  let ?p = "segment_row ''Particulier'' (Num 1500000 (ustr ''1500000''))"
  let ?u = "segment_row ''unknown_type'' (Num 500000 (ustr ''500000''))"
  let ?b = "segment_row ''tpe'' (Num 500000 (ustr ''500000''))"
  have known: "ustr ''tpe'' \<in> set known_segments" "ustr ''particulier'' \<in> set known_segments"
    by (simp_all add: known_segments_def)
  have capitals: "case_variant (py_str (row_get ?t ''segment'' (Str []))) (ustr ''tpe'')"
    by (simp add: case_variant_def row_get_def py_str_def segment_row_def ustr_def)
  have capital: "case_variant (py_str (row_get ?p ''segment'' (Str []))) (ustr ''particulier'')"
    by (simp add: case_variant_def row_get_def py_str_def segment_row_def ustr_def)
  from segment_dispatch [of ?t] known(1) capitals
  have tpe: "py_lower (py_str (row_get ?t ''segment'' (Str []))) = ustr ''tpe''"
    by blast
  from segment_dispatch [of ?p] known(2) capital
  have part: "py_lower (py_str (row_get ?p ''segment'' (Str []))) = ustr ''particulier''"
    by blast
  have unknown: "py_lower (py_str (row_get ?u ''segment'' (Str []))) \<notin> set known_segments"
    by (simp add: row_eval known_segments_def)
  have amount: "py_float (row_get ?u ''montant'' (Num 0 (ustr ''0''))) = Inr (Fin 500000)"
    by (simp add: row_eval)
  have same: "py_lower (py_str (Str (ustr ''Tpe''))) = py_lower (py_str (Str (ustr ''tPE'')))"
    by (simp add: row_eval)
  from segment_dispatch [of ?t] tpe
  have 1: "calculate_individual_weighting ?t = Inr (calculate_tpe_weighting ?t)"
    by blast
  then have 2: "calculate_individual_weighting ?t = Inr (3/4)"
    by (simp add: calculate_tpe_weighting_def)
  from segment_dispatch [of ?p] part
  have "calculate_individual_weighting ?p = calculate_individual_weighting_method ?p"
    by blast
  then have 3: "calculate_individual_weighting ?p = Inr 1"
    by (simp add: calculate_individual_weighting_method_def f_gt_def row_eval)
  from segment_dispatch [of ?u] unknown amount
  have 4: "calculate_individual_weighting ?u = Inr 1"
    and "\<exists>x. row_result ?u = Inr x \<and> ponderation x = 1 \<and> montant x = Fin 500000
           \<and> rwa x = f_mul (Fin 500000) 1"
    by blast+
  then obtain x where x: "row_result ?u = Inr x" "ponderation x = 1" "montant x = Fin 500000"
    "rwa x = f_mul (Fin 500000) 1" by blast
  have "segment x = Str (ustr ''unknown_type'')" "sous_segment x = Str []"
    using x(1) by (auto simp: row_result_def row_eval split: sum.splits)
  with x have 5: "row_result ?u
     = Inr \<lparr> segment = Str (ustr ''unknown_type''), sous_segment = Str [],
              montant = Fin 500000, ponderation = 1, rwa = Fin 500000 \<rparr>"
    by (cases x) (simp add: f_mul_def)
  from segment_dispatch [of ?b "Str (ustr ''Tpe'')" "Str (ustr ''tPE'')"] same
  have 6: "calculate_individual_weighting (?b(''segment'' \<mapsto> Str (ustr ''Tpe'')))
     = calculate_individual_weighting (?b(''segment'' \<mapsto> Str (ustr ''tPE'')))"
    by blast
  from 1 2 3 4 5 6 show ?thesis by blast
qed

section \<open>The batch as a whole\<close>

lemma average_weighting_of_eq: "average_weighting_of a b = Inr (percentage a b)"
  using f_div_returns [OF f_gt_not_zero, of b a]
  by (auto simp: percentage_def average_weighting_of_def split: sum.splits)

lemma percentage_zero: "\<not> f_gt b 0 \<Longrightarrow> percentage a b = Fin 0"
  by (simp add: percentage_def average_weighting_of_def)

lemma percentage_quotient:
  "f_gt b 0 \<Longrightarrow> \<exists>q. f_div a b = Inr q \<and> percentage a b = f_mul q 100"
  using f_div_returns [OF f_gt_not_zero, of b a]
  by (cases "f_div a b") (auto simp: percentage_def average_weighting_of_def)

lemma percentage_finite:
  "percentage (Fin a) (Fin b) = Fin (if b > 0 then a / b * 100 else 0)"
  by (simp add: percentage_def average_weighting_of_def f_gt_def f_div_def f_mul_def)

lemma segment_entry_eq: "segment_entry results seg = Inr (seg, stats_of results seg)"
  by (simp add: segment_entry_def stats_of_def Let_def average_weighting_of_eq)

lemma segment_entries_eq:
  "segment_entries results segs = Inr (map (\<lambda>seg. (seg, stats_of results seg)) segs)"
  by (induction segs) (simp_all add: segment_entry_eq)

lemma rows_results_all2D:
  "rows_results df = Inr rs \<Longrightarrow> list_all2 (\<lambda>r x. row_result r = Inr x) df rs"
  by (induction df arbitrary: rs) (auto split: sum.splits)

lemma rows_results_all2I:
  "list_all2 (\<lambda>r x. row_result r = Inr x) df rs \<Longrightarrow> rows_results df = Inr rs"
  by (induction df rs rule: list_all2_induct) simp_all

lemma rows_results_segments:
  "rows_results df = Inr rs \<Longrightarrow>
   map segment rs = map (\<lambda>r. row_get r ''segment'' (Str [])) df"
  by (drule rows_results_all2D, induction df rs rule: list_all2_induct)
     (auto dest: row_result_Inr)

lemma rows_results_total:
  "(\<forall>r \<in> set df. \<exists>x. row_result r = Inr x) \<Longrightarrow> \<exists>rs. rows_results df = Inr rs"
  by (induction df) auto

lemma those_map:
  "those (map f xs) = Some vs \<Longrightarrow> vs = map (\<lambda>x. case f x of Some v \<Rightarrow> v | None \<Rightarrow> d) xs"
  by (induction xs arbitrary: vs) (auto split: option.splits)

lemma those_total: "(\<forall>x \<in> set xs. f x \<noteq> None) \<Longrightarrow> \<exists>vs. those (map f xs) = Some vs"
  by (induction xs) auto

lemma df_column_values:
  "df_column df c = Inr segs \<Longrightarrow> segs = map (\<lambda>r. row_get r c d) df"
  unfolding df_column_def row_get_def
  by (auto split: option.splits dest: those_map [where d = d])

lemma df_column_total:
  "(\<forall>r \<in> set df. r c \<noteq> None) \<Longrightarrow> \<exists>segs. df_column df c = Inr segs"
  using those_total [of df "\<lambda>r. r c"] by (auto simp: df_column_def)

lemma calculate_rwa_Inr:
  assumes "rows_results df = Inr results" and "results \<noteq> []"
    and "df_column df ''segment'' = Inr segs"
  shows "calculate_rwa df =
     Inr \<lparr> results_df = results,
           total_rwa = nansum (map rwa results),
           total_exposure = nansum (map montant results),
           average_weighting =
             percentage (nansum (map rwa results)) (nansum (map montant results)),
           unique_counterparty_types = length (unique segs),
           counterparty_analysis =
             map (\<lambda>seg. (seg, stats_of results seg)) (unique (map segment results)) \<rparr>"
  using assms
  by (simp add: calculate_rwa_def Let_def average_weighting_of_eq segment_entries_eq)

lemma calculate_rwa_cases:
  assumes "calculate_rwa df = Inr out"
  shows "\<exists>results segs. rows_results df = Inr results \<and> results \<noteq> []
            \<and> df_column df ''segment'' = Inr segs"
  using assms
  by (auto simp: calculate_rwa_def Let_def average_weighting_of_eq segment_entries_eq
      split: sum.splits if_splits)

lemma calculate_rwa_no_zero_division: "calculate_rwa df \<noteq> Inl ZeroDivisionError"
proof -
  have "rows_results df \<noteq> Inl ZeroDivisionError"
  proof (induction df)
    case Nil show ?case by simp
  next
    case (Cons r df)
    have "row_result r \<noteq> Inl ZeroDivisionError"
      using individual_error [of r ZeroDivisionError]
        py_float_error [of "row_get r ''montant'' (Num 0 (ustr ''0''))" ZeroDivisionError]
      by (auto simp: row_result_def split: sum.splits)
    with Cons show ?case by (auto split: sum.splits)
  qed
  then show ?thesis
    by (auto simp: calculate_rwa_def Let_def average_weighting_of_eq segment_entries_eq
        df_column_def split: sum.splits if_splits option.splits)
qed


lemma row_result_missing_amount:
  assumes "r ''montant'' = None" and "calculate_individual_weighting r = Inr w"
  shows "row_result r =
     Inr \<lparr> segment = row_get r ''segment'' (Str []),
           sous_segment = row_get r ''sous_segment'' (Str []),
           montant = Fin 0, ponderation = w, rwa = Fin 0 \<rparr>"
  using assms
  by (simp add: row_result_def row_get_def py_float_def double_overflow_def f_mul_def)

text \<open>
  C6, as the code has it. The claim as written fails for a non-numeric amount:
  \<^verbatim>\<open>float('abc')\<close> raises \<^verbatim>\<open>ValueError\<close>, nothing catches it, and the call ends without
  a result for the remaining rows.
\<close>

theorem non_numeric_amount_aborts:
  "calculate_rwa
     [segment_row ''tpe'' (Str (ustr ''abc'')),
      segment_row ''tpe'' (Num 100 (ustr ''100''))] = Inl ValueError"
  by (simp add: calculate_rwa_def row_result_def calculate_individual_weighting_def
      calculate_tpe_weighting_def row_eval parse_eval)

text \<open>
  C6, amended. For every input row whose amount field is absent, the amount is taken
  as 0 and the row yields RWA 0 (provided the row's weight resolves); and a non-empty
  batch with a segment column in which every row's weight and amount convert is
  processed to the end, with one result per row, in order.
\<close>

theorem missing_amount_is_zero:
  "(r ''montant'' = None \<longrightarrow>
      (\<forall>w. calculate_individual_weighting r = Inr w \<longrightarrow>
         row_result r =
           Inr \<lparr> segment = row_get r ''segment'' (Str []),
                 sous_segment = row_get r ''sous_segment'' (Str []),
                 montant = Fin 0, ponderation = w, rwa = Fin 0 \<rparr>))
   \<and> (df \<noteq> [] \<and> (\<forall>r \<in> set df. r ''segment'' \<noteq> None)
        \<and> (\<forall>r \<in> set df. \<exists>x. row_result r = Inr x) \<longrightarrow>
        (\<exists>out. calculate_rwa df = Inr out
           \<and> list_all2 (\<lambda>r x. row_result r = Inr x) df (results_df out)))"
proof (intro conjI impI allI)
  fix w assume "r ''montant'' = None" "calculate_individual_weighting r = Inr w"
  then show "row_result r =
           Inr \<lparr> segment = row_get r ''segment'' (Str []),
                 sous_segment = row_get r ''sous_segment'' (Str []),
                 montant = Fin 0, ponderation = w, rwa = Fin 0 \<rparr>"
    by (rule row_result_missing_amount)
next
  assume a: "df \<noteq> [] \<and> (\<forall>r \<in> set df. r ''segment'' \<noteq> None)
        \<and> (\<forall>r \<in> set df. \<exists>x. row_result r = Inr x)"
  then obtain rs where rs: "rows_results df = Inr rs"
    using rows_results_total by blast
  from a obtain segs where segs: "df_column df ''segment'' = Inr segs"
    using df_column_total by blast
  have all2: "list_all2 (\<lambda>r x. row_result r = Inr x) df rs"
    using rs by (rule rows_results_all2D)
  then have "rs \<noteq> []" using a by auto
  from calculate_rwa_Inr [OF rs this segs] all2
  show "\<exists>out. calculate_rwa df = Inr out
           \<and> list_all2 (\<lambda>r x. row_result r = Inr x) df (results_df out)"
    by simp
qed

lemma amount_missing_result: "calculate_rwa amount_missing_batch = Inr amount_missing_output"
  by (simp add: amount_missing_batch_def amount_missing_output_def batch_eval row_eval)

theorem missing_amount_is_zero_witness:
  "row_result [''segment'' \<mapsto> Str (ustr ''tpe'')]
     = Inr \<lparr> segment = Str (ustr ''tpe''), sous_segment = Str [], montant = Fin 0,
              ponderation = 3/4, rwa = Fin 0 \<rparr>
   \<and> calculate_rwa amount_missing_batch = Inr amount_missing_output
   \<and> length (results_df amount_missing_output) = length amount_missing_batch"
proof -
  let ?r = "[''segment'' \<mapsto> Str (ustr ''tpe'')] :: row"
  have absent: "?r ''montant'' = None" by simp
  have weight: "calculate_individual_weighting ?r = Inr (3/4)"
    by (simp add: batch_eval row_eval)
  have nonempty: "amount_missing_batch \<noteq> []"
    by (simp add: amount_missing_batch_def)
  have column: "\<forall>r \<in> set amount_missing_batch. r ''segment'' \<noteq> None"
    by (simp add: amount_missing_batch_def segment_row_def)
  have rows: "\<forall>r \<in> set amount_missing_batch. \<exists>x. row_result r = Inr x"
    by (simp add: amount_missing_batch_def batch_eval row_eval)
  from missing_amount_is_zero [of ?r amount_missing_batch] absent weight
  have "row_result ?r =
           Inr \<lparr> segment = row_get ?r ''segment'' (Str []),
                 sous_segment = row_get ?r ''sous_segment'' (Str []),
                 montant = Fin 0, ponderation = 3/4, rwa = Fin 0 \<rparr>"
    by blast
  then have 1: "row_result ?r
     = Inr \<lparr> segment = Str (ustr ''tpe''), sous_segment = Str [], montant = Fin 0,
              ponderation = 3/4, rwa = Fin 0 \<rparr>"
    by (simp add: row_get_def)
  from missing_amount_is_zero [of ?r amount_missing_batch] nonempty column rows
  obtain out where out: "calculate_rwa amount_missing_batch = Inr out"
    and all2: "list_all2 (\<lambda>r x. row_result r = Inr x) amount_missing_batch (results_df out)"
    by blast
  from out amount_missing_result have eq: "out = amount_missing_output" by simp
  from all2 have "length (results_df amount_missing_output) = length amount_missing_batch"
    unfolding eq by (simp add: list_all2_lengthD)
  with 1 amount_missing_result show ?thesis by simp
qed

lemma calculate_rwa_out:
  assumes "calculate_rwa df = Inr out"
  obtains results segs where "rows_results df = Inr results" "results \<noteq> []"
    "df_column df ''segment'' = Inr segs"
    "out = \<lparr> results_df = results,
           total_rwa = nansum (map rwa results),
           total_exposure = nansum (map montant results),
           average_weighting =
             percentage (nansum (map rwa results)) (nansum (map montant results)),
           unique_counterparty_types = length (unique segs),
           counterparty_analysis =
             map (\<lambda>seg. (seg, stats_of results seg)) (unique (map segment results)) \<rparr>"
proof -
  from calculate_rwa_cases [OF assms] obtain results segs where
    a: "rows_results df = Inr results" "results \<noteq> []" "df_column df ''segment'' = Inr segs"
    by blast
  from calculate_rwa_Inr [OF a] assms that [OF a] show thesis by simp
qed

text \<open>
  C8, as the code has it. The claim as written fails on the scale: the value returned
  is the quotient times 100. One micro-enterprise exposure of 100 has total RWA 75,
  total exposure 100 and average weighting 75, not 0.75.
\<close>

theorem average_is_percentage:
  "calculate_rwa [segment_row ''tpe'' (Num 100 (ustr ''100''))]
   = Inr \<lparr> results_df =
             [\<lparr> segment = Str (ustr ''tpe''), sous_segment = Str [], montant = Fin 100,
                 ponderation = 3/4, rwa = Fin 75 \<rparr>],
           total_rwa = Fin 75, total_exposure = Fin 100, average_weighting = Fin 75,
           unique_counterparty_types = 1,
           counterparty_analysis =
             [(Str (ustr ''tpe''),
               \<lparr> count = 1, seg_total_exposure = Fin 100, seg_total_rwa = Fin 75,
                  avg_weighting = Fin 75 \<rparr>)] \<rparr>
   \<and> (75 :: rat) / 100 \<noteq> 75"
  by (simp add: batch_eval row_eval)

text \<open>
  C8, amended. Whenever \<^verbatim>\<open>calculate_rwa\<close> returns, the average weight it returns is the
  percentage total RWA / total exposure * 100 when the total exposure is positive and 0
  otherwise, for the portfolio and for every segment of the breakdown; the call never
  raises a division-by-zero fault; and it does return for every non-empty batch with a
  segment column whose rows all convert. The rule is stated three times over: for finite
  totals as the formula itself, and for all totals, infinite ones included, as the two
  branches of the guard.
\<close>

theorem average_weighting_guarded:
  "calculate_rwa df \<noteq> Inl ZeroDivisionError
   \<and> (\<forall>out. calculate_rwa df = Inr out \<longrightarrow>
         total_rwa out = nansum (map rwa (results_df out))
         \<and> total_exposure out = nansum (map montant (results_df out))
         \<and> (\<forall>a b. total_rwa out = Fin a \<and> total_exposure out = Fin b \<longrightarrow>
               average_weighting out = Fin (if b > 0 then a / b * 100 else 0))
         \<and> (f_gt (total_exposure out) 0 \<longrightarrow>
               (\<exists>q. f_div (total_rwa out) (total_exposure out) = Inr q
                     \<and> average_weighting out = f_mul q 100))
         \<and> (\<not> f_gt (total_exposure out) 0 \<longrightarrow> average_weighting out = Fin 0)
         \<and> list_all (\<lambda>e.
               (\<forall>a b. seg_total_rwa (snd e) = Fin a \<and> seg_total_exposure (snd e) = Fin b \<longrightarrow>
                  avg_weighting (snd e) = Fin (if b > 0 then a / b * 100 else 0))
               \<and> (f_gt (seg_total_exposure (snd e)) 0 \<longrightarrow>
                    (\<exists>q. f_div (seg_total_rwa (snd e)) (seg_total_exposure (snd e)) = Inr q
                          \<and> avg_weighting (snd e) = f_mul q 100))
               \<and> (\<not> f_gt (seg_total_exposure (snd e)) 0 \<longrightarrow> avg_weighting (snd e) = Fin 0))
             (counterparty_analysis out))
   \<and> (df \<noteq> [] \<and> (\<forall>r \<in> set df. r ''segment'' \<noteq> None)
        \<and> (\<forall>r \<in> set df. \<exists>x. row_result r = Inr x) \<longrightarrow>
        (\<exists>out. calculate_rwa df = Inr out))"
proof (intro conjI allI impI)
  show "calculate_rwa df \<noteq> Inl ZeroDivisionError"
    by (rule calculate_rwa_no_zero_division)
next
  fix out assume "calculate_rwa df = Inr out"
  then obtain results segs where
    out: "out = \<lparr> results_df = results,
           total_rwa = nansum (map rwa results),
           total_exposure = nansum (map montant results),
           average_weighting =
             percentage (nansum (map rwa results)) (nansum (map montant results)),
           unique_counterparty_types = length (unique segs),
           counterparty_analysis =
             map (\<lambda>seg. (seg, stats_of results seg)) (unique (map segment results)) \<rparr>"
    by (rule calculate_rwa_out)
  have avg: "average_weighting out = percentage (total_rwa out) (total_exposure out)"
    by (simp add: out)
  have seg: "avg_weighting (stats_of results s)
             = percentage (seg_total_rwa (stats_of results s))
                 (seg_total_exposure (stats_of results s))" for s
    by (simp add: stats_of_def Let_def)
  show "total_rwa out = nansum (map rwa (results_df out))" by (simp add: out)
  show "total_exposure out = nansum (map montant (results_df out))" by (simp add: out)
  show "average_weighting out = Fin (if b > 0 then a / b * 100 else 0)"
    if "total_rwa out = Fin a \<and> total_exposure out = Fin b" for a b
    using that by (simp add: avg percentage_finite)
  show "\<exists>q. f_div (total_rwa out) (total_exposure out) = Inr q
             \<and> average_weighting out = f_mul q 100"
    if "f_gt (total_exposure out) 0"
    unfolding avg using that by (rule percentage_quotient)
  show "average_weighting out = Fin 0" if "\<not> f_gt (total_exposure out) 0"
    unfolding avg using that by (rule percentage_zero)
  have "(\<forall>a b. seg_total_rwa (stats_of results s) = Fin a
                \<and> seg_total_exposure (stats_of results s) = Fin b \<longrightarrow>
                  avg_weighting (stats_of results s) = Fin (if b > 0 then a / b * 100 else 0))
        \<and> (f_gt (seg_total_exposure (stats_of results s)) 0 \<longrightarrow>
             (\<exists>q. f_div (seg_total_rwa (stats_of results s))
                     (seg_total_exposure (stats_of results s)) = Inr q
                   \<and> avg_weighting (stats_of results s) = f_mul q 100))
        \<and> (\<not> f_gt (seg_total_exposure (stats_of results s)) 0 \<longrightarrow>
             avg_weighting (stats_of results s) = Fin 0)" for s
    unfolding seg
    using percentage_quotient percentage_zero by (auto simp: percentage_finite)
  then show "list_all (\<lambda>e.
               (\<forall>a b. seg_total_rwa (snd e) = Fin a \<and> seg_total_exposure (snd e) = Fin b \<longrightarrow>
                  avg_weighting (snd e) = Fin (if b > 0 then a / b * 100 else 0))
               \<and> (f_gt (seg_total_exposure (snd e)) 0 \<longrightarrow>
                    (\<exists>q. f_div (seg_total_rwa (snd e)) (seg_total_exposure (snd e)) = Inr q
                          \<and> avg_weighting (snd e) = f_mul q 100))
               \<and> (\<not> f_gt (seg_total_exposure (snd e)) 0 \<longrightarrow> avg_weighting (snd e) = Fin 0))
             (counterparty_analysis out)"
    unfolding out by (simp add: list_all_iff)
next
  assume a: "df \<noteq> [] \<and> (\<forall>r \<in> set df. r ''segment'' \<noteq> None)
        \<and> (\<forall>r \<in> set df. \<exists>x. row_result r = Inr x)"
  then obtain rs where rs: "rows_results df = Inr rs"
    using rows_results_total by blast
  from a obtain segs where segs: "df_column df ''segment'' = Inr segs"
    using df_column_total by blast
  have "list_all2 (\<lambda>r x. row_result r = Inr x) df rs"
    using rs by (rule rows_results_all2D)
  then have "rs \<noteq> []" using a by auto
  from calculate_rwa_Inr [OF rs this segs]
  show "\<exists>out. calculate_rwa df = Inr out" by simp
qed

lemma mixed_batch_result: "calculate_rwa mixed_batch = Inr mixed_batch_output"
  by (simp add: mixed_batch_def mixed_batch_output_def batch_eval row_eval)

theorem average_weighting_guarded_witness:
  "calculate_rwa mixed_batch = Inr mixed_batch_output
   \<and> average_weighting mixed_batch_output = Fin 0
   \<and> total_exposure mixed_batch_output = Fin (-400)
   \<and> map (avg_weighting \<circ> snd) (counterparty_analysis mixed_batch_output) = [Fin 75, Fin 0]"
proof -
  have nonempty: "mixed_batch \<noteq> []"
    by (simp add: mixed_batch_def)
  have column: "\<forall>r \<in> set mixed_batch. r ''segment'' \<noteq> None"
    by (simp add: mixed_batch_def segment_row_def)
  have rows: "\<forall>r \<in> set mixed_batch. \<exists>x. row_result r = Inr x"
    by (simp add: mixed_batch_def batch_eval row_eval)
  from average_weighting_guarded [of mixed_batch] nonempty column rows
  obtain out where out: "calculate_rwa mixed_batch = Inr out" by blast
  with mixed_batch_result have eq: "out = mixed_batch_output" by simp
  have totals: "total_rwa out = Fin (-300) \<and> total_exposure out = Fin (-400)"
    by (simp add: eq mixed_batch_output_def)
  have guard: "\<not> f_gt (total_exposure out) 0"
    by (simp add: eq mixed_batch_output_def f_gt_def)
  from average_weighting_guarded [of mixed_batch] out totals
  have "average_weighting out = Fin (if (-400 :: rat) > 0 then -300 / -400 * 100 else 0)"
    by blast
  moreover from average_weighting_guarded [of mixed_batch] out guard
  have "average_weighting out = Fin 0"
    by blast
  ultimately have "average_weighting mixed_batch_output = Fin 0"
    by (simp add: eq)
  then show ?thesis
    using mixed_batch_result by (simp add: mixed_batch_output_def)
qed

section \<open>The breakdown by raw segment value\<close>

lemma same_value_Str: "same_value (Str a) v = (v = Str a)"
  by (cases v) (auto simp: same_value_def py_eq_def)

lemma py_eq_Str: "py_eq (Str a) (Str b) = (a = b)"
  by (simp add: py_eq_def)

lemma unique_from_strings:
  assumes "\<forall>v \<in> set vs. \<exists>s. v = Str s"
  shows "distinct (unique_from seen vs) \<and> set (unique_from seen vs) = set vs - set seen"
  using assms
proof (induction vs arbitrary: seen)
  case Nil
  show ?case by simp
next
  case (Cons v vs)
  then obtain s where v: "v = Str s" by auto
  have ex: "list_ex (same_value v) seen = (v \<in> set seen)"
    by (auto simp: v same_value_Str list_ex_iff)
  from Cons have IH: "\<And>seen. distinct (unique_from seen vs)
      \<and> set (unique_from seen vs) = set vs - set seen" by simp
  show ?case
    using IH [of seen] IH [of "v # seen"] by (auto simp: ex)
qed

lemma unique_strings:
  "\<forall>v \<in> set vs. \<exists>s. v = Str s \<Longrightarrow> distinct (unique vs) \<and> set (unique vs) = set vs"
  using unique_from_strings [of vs "[]"] by (simp add: unique_def)

lemma count_strings:
  assumes "\<forall>v \<in> set (map segment results). \<exists>s. v = Str s"
  shows "count (stats_of results (Str a))
         = length (filter (\<lambda>v. v = Str a) (map segment results))"
proof -
  have "filter (\<lambda>x. py_eq (segment x) (Str a)) results
        = filter (\<lambda>x. segment x = Str a) results"
    using assms by (intro filter_cong refl) (auto simp: py_eq_Str)
  then show ?thesis
    by (simp add: stats_of_def Let_def filter_map comp_def)
qed

text \<open>
  C10. The breakdown and the segment count are keyed by the raw segment value of each
  row: the keys of \<^verbatim>\<open>counterparty_analysis\<close> are the distinct raw values in order of first
  appearance and \<^verbatim>\<open>unique_counterparty_types\<close> is their number; when the segment cells
  are strings there is exactly one entry per distinct string, counting the rows that
  carry exactly that string. So \<^verbatim>\<open>tpe\<close> and \<^verbatim>\<open>TPE\<close>, weighted alike, are two segments.
\<close>

theorem breakdown_keyed_by_raw_segment:
  assumes "calculate_rwa df = Inr out"
  shows "map fst (counterparty_analysis out)
           = unique (map (\<lambda>r. row_get r ''segment'' (Str [])) df)
     \<and> unique_counterparty_types out
           = length (unique (map (\<lambda>r. row_get r ''segment'' (Str [])) df))
     \<and> ((\<forall>r \<in> set df. \<exists>s. r ''segment'' = Some (Str s)) \<longrightarrow>
          distinct (map fst (counterparty_analysis out))
          \<and> set (map fst (counterparty_analysis out))
              = (\<lambda>r. row_get r ''segment'' (Str [])) ` set df
          \<and> list_all (\<lambda>e. count (snd e)
                = length (filter (\<lambda>r. row_get r ''segment'' (Str []) = fst e) df))
              (counterparty_analysis out))"
proof -
  let ?raw = "map (\<lambda>r. row_get r ''segment'' (Str [])) df"
  from assms obtain results segs where
    rs: "rows_results df = Inr results" and
    segs: "df_column df ''segment'' = Inr segs" and
    out: "out = \<lparr> results_df = results,
           total_rwa = nansum (map rwa results),
           total_exposure = nansum (map montant results),
           average_weighting =
             percentage (nansum (map rwa results)) (nansum (map montant results)),
           unique_counterparty_types = length (unique segs),
           counterparty_analysis =
             map (\<lambda>seg. (seg, stats_of results seg)) (unique (map segment results)) \<rparr>"
    by (rule calculate_rwa_out)
  have seg_raw: "map segment results = ?raw" using rs by (rule rows_results_segments)
  have segs_raw: "segs = ?raw" using segs by (rule df_column_values)
  have keys: "map fst (counterparty_analysis out) = unique ?raw"
    by (simp add: out comp_def seg_raw)
  have types: "unique_counterparty_types out = length (unique ?raw)"
    by (simp add: out segs_raw)
  have strings: "distinct (map fst (counterparty_analysis out))
          \<and> set (map fst (counterparty_analysis out))
              = (\<lambda>r. row_get r ''segment'' (Str [])) ` set df
          \<and> list_all (\<lambda>e. count (snd e)
                = length (filter (\<lambda>r. row_get r ''segment'' (Str []) = fst e) df))
              (counterparty_analysis out)"
    if str: "\<forall>r \<in> set df. \<exists>s. r ''segment'' = Some (Str s)"
  proof -
    have all: "\<forall>v \<in> set ?raw. \<exists>s. v = Str s"
      using str by (auto simp: row_get_def)
    from unique_strings [OF all] have u: "distinct (unique ?raw)" "set (unique ?raw) = set ?raw"
      by simp_all
    have cnt: "count (stats_of results k)
                 = length (filter (\<lambda>r. row_get r ''segment'' (Str []) = k) df)"
      if "k \<in> set (unique ?raw)" for k
    proof -
      from that u(2) all obtain a where k: "k = Str a" by auto
      have "count (stats_of results (Str a)) = length (filter (\<lambda>v. v = Str a) ?raw)"
        using count_strings [of results a] all by (simp add: seg_raw)
      then show ?thesis by (simp add: k filter_map comp_def)
    qed
    show ?thesis
      using u cnt by (auto simp: keys out comp_def seg_raw list_all_iff)
  qed
  from keys types strings show ?thesis by blast
qed

lemma tpe_pair_result: "calculate_rwa tpe_pair = Inr tpe_pair_output"
  by (simp add: tpe_pair_def tpe_pair_output_def batch_eval row_eval)

theorem breakdown_keyed_by_raw_segment_witness:
  "calculate_rwa tpe_pair = Inr tpe_pair_output
   \<and> map fst (counterparty_analysis tpe_pair_output) = [Str (ustr ''tpe''), Str (ustr ''TPE'')]
   \<and> unique_counterparty_types tpe_pair_output = 2
   \<and> distinct (map fst (counterparty_analysis tpe_pair_output))
   \<and> map (ponderation) (results_df tpe_pair_output) = [3/4, 3/4]"
proof -
  have strings: "\<forall>r \<in> set tpe_pair. \<exists>s. r ''segment'' = Some (Str s)"
    by (simp add: tpe_pair_def segment_row_def)
  have raw: "unique (map (\<lambda>r. row_get r ''segment'' (Str [])) tpe_pair)
             = [Str (ustr ''tpe''), Str (ustr ''TPE'')]"
    by (simp add: tpe_pair_def unique_def same_value_def py_eq_def row_eval)
  from breakdown_keyed_by_raw_segment [OF tpe_pair_result] strings raw
  have "map fst (counterparty_analysis tpe_pair_output) = [Str (ustr ''tpe''), Str (ustr ''TPE'')]"
    and "unique_counterparty_types tpe_pair_output = 2"
    and "distinct (map fst (counterparty_analysis tpe_pair_output))"
    by (simp_all add: ustr_def)
  moreover have "map (ponderation) (results_df tpe_pair_output) = [3/4, 3/4]"
    by (simp add: tpe_pair_output_def)
  ultimately show ?thesis using tpe_pair_result by simp
qed

end
